theory Spec2Isabelle
  imports
    Complex_Main
    "HOL-Library.Char_ord"
    "HOL-Library.List_Lexorder"
    "HOL-Library.Product_Lexorder"
    "HOL-Library.Multiset"
begin

section \<open>PEGY stock screener (app.py)\<close>

text \<open>
  The program is one Streamlit script: \<open>parse_tickers\<close> turns the text area into a list
  of symbols, \<open>fetch_summary\<close> and \<open>batch_fetch\<close> ask the market-data provider for
  each symbol, and the block under the "Run Screen" button derives PEGY on a pandas
  frame, filters it, sorts it, shows it and offers it as CSV.

  Conventions of the embedding:
  \<^item> a Python \<open>str\<close> is a \<open>string\<close>; \<open>str.strip\<close>, \<open>str.upper\<close> and string
    comparison are modelled on ASCII text (code points above 127 are left alone);
  \<^item> a Python float is a \<open>real\<close>, and a float cell of a frame is a \<open>real option\<close>
    with \<open>None\<close> for NaN; rounding error and infinities of IEEE doubles are outside
    the model. A numeric field of the provider is a number or is missing (a null counts as
    missing), and a numeric column of the frame holds floats;
  \<^item> an exception is a value: \<open>Inl\<close> of a sum type;
  \<^item> the provider (yfinance) is a parameter: a function from the symbol to what
    \<open>yf.Ticker(symbol)\<close> does. The \<open>st.cache_data\<close> decorators return what an
    earlier call with the same argument returned and are transparent for such a function.
\<close>

subsection \<open>Strings: the str methods used by \<open>parse_tickers\<close>\<close>

definition isspace :: "char \<Rightarrow> bool" where
  \<comment> \<open>the ASCII characters for which \<open>str.isspace\<close> holds: TAB..CR, FS..US, SPACE\<close>
  "isspace c = (let n = (of_char c :: nat) in (9 \<le> n \<and> n \<le> 13) \<or> (28 \<le> n \<and> n \<le> 32))"

definition upper_char :: "char \<Rightarrow> char" where
  "upper_char c =
     (let n = (of_char c :: nat) in if 97 \<le> n \<and> n \<le> 122 then char_of (n - 32) else c)"

definition upper :: "string \<Rightarrow> string" where
  "upper s = map upper_char s"

definition strip :: "string \<Rightarrow> string" where
  "strip s = rev (dropWhile isspace (rev (dropWhile isspace s)))"

definition replace :: "char \<Rightarrow> char \<Rightarrow> string \<Rightarrow> string" where
  "replace old new s = map (\<lambda>c. if c = old then new else c) s"

fun split :: "char \<Rightarrow> string \<Rightarrow> string list" where
  \<comment> \<open>\<open>s.split(sep)\<close>: one more piece than there are separators, empty pieces kept\<close>
  "split sep [] = [[]]"
| "split sep (c # cs) =
     (if c = sep then [] # split sep cs
      else (c # hd (split sep cs)) # tl (split sep cs))"

subsection \<open>The ticker parser\<close>

definition parse_tickers :: "string \<Rightarrow> string list" where
  "parse_tickers txt =
     (let raw = map (\<lambda>x. upper (strip x)) (split (CHR '','') (replace (CHR 0x0A) (CHR '','') txt))
      in filter (\<lambda>t. t \<noteq> []) raw)"

subsection \<open>Cells, dicts and frames\<close>

datatype cell = Str string | Num real | NaN

type_synonym pydict = "(string \<times> cell) list"

definition num :: "real option \<Rightarrow> cell" where
  "num x = (case x of None \<Rightarrow> NaN | Some v \<Rightarrow> Num v)"

definition str :: "string option \<Rightarrow> cell" where
  "str x = (case x of None \<Rightarrow> NaN | Some s \<Rightarrow> Str s)"

definition get_num :: "pydict \<Rightarrow> string \<Rightarrow> real option" where
  "get_num d k = (case map_of d k of Some (Num v) \<Rightarrow> Some v | _ \<Rightarrow> None)"

definition get_str :: "pydict \<Rightarrow> string \<Rightarrow> string option" where
  "get_str d k = (case map_of d k of Some (Str s) \<Rightarrow> Some s | _ \<Rightarrow> None)"

text \<open>
  One row of the frame. The first nine fields are the columns that \<open>pd.DataFrame(rows)\<close>
  can have; the last three are the columns the run block adds. A cell that its dict did
  not supply, or a column not yet assigned, is NaN (\<open>None\<close>).
\<close>

record row =
  Ticker :: string
  Name :: "string option"
  Price :: "real option"
  Sector :: "string option"
  TrailingPE :: "real option"
  ForwardPE :: "real option"
  DividendPct :: "real option"
  AnalystGrowth :: "real option"
  Error :: "string option"
  PEUsed :: "real option"
  GrowthUsed :: "real option"
  PEGY :: "real option"

record frame =
  columns :: "string list"
  rows :: "row list"

fun uniq :: "string list \<Rightarrow> string list" where
  \<comment> \<open>the keys in order of first appearance\<close>
  "uniq [] = []"
| "uniq (k # ks) = k # filter (\<lambda>x. x \<noteq> k) (uniq ks)"

definition to_row :: "pydict \<Rightarrow> row" where
  "to_row d =
     \<lparr> Ticker = (case map_of d ''Ticker'' of Some (Str s) \<Rightarrow> s | _ \<Rightarrow> []),
       Name = get_str d ''Name'',
       Price = get_num d ''Price'',
       Sector = get_str d ''Sector'',
       TrailingPE = get_num d ''Trailing PE'',
       ForwardPE = get_num d ''Forward PE'',
       DividendPct = get_num d ''Dividend %'',
       AnalystGrowth = get_num d ''Analyst 5y Growth %'',
       Error = get_str d ''Error'',
       PEUsed = None, GrowthUsed = None, PEGY = None \<rparr>"

definition DataFrame :: "pydict list \<Rightarrow> frame" where
  \<comment> \<open>\<open>pd.DataFrame(list of dicts)\<close>: the columns are the union of the keys, a missing key is NaN\<close>
  "DataFrame ds = \<lparr> columns = uniq (concat (map (map fst) ds)), rows = map to_row ds \<rparr>"

definition cell_at :: "string \<Rightarrow> row \<Rightarrow> cell" where
  "cell_at c r =
     (if c = ''Ticker'' then Str (Ticker r)
      else if c = ''Name'' then str (Name r)
      else if c = ''Price'' then num (Price r)
      else if c = ''Sector'' then str (Sector r)
      else if c = ''Trailing PE'' then num (TrailingPE r)
      else if c = ''Forward PE'' then num (ForwardPE r)
      else if c = ''Dividend %'' then num (DividendPct r)
      else if c = ''Analyst 5y Growth %'' then num (AnalystGrowth r)
      else if c = ''Error'' then str (Error r)
      else if c = ''PE Used'' then num (PEUsed r)
      else if c = ''Growth % Used'' then num (GrowthUsed r)
      else if c = ''PEGY'' then num (PEGY r)
      else NaN)"

definition setcol :: "string \<Rightarrow> (row \<Rightarrow> row) \<Rightarrow> frame \<Rightarrow> frame" where
  \<comment> \<open>\<open>df[c] = ...\<close>: an existing column keeps its place, a new one goes last\<close>
  "setcol c f df =
     df\<lparr> columns := (if c \<in> set (columns df) then columns df else columns df @ [c]),
         rows := map f (rows df) \<rparr>"

subsection \<open>The provider\<close>

record info_dict =
  trailingPE :: "real option"
  forwardPE :: "real option"
  dividendYield :: "real option"
  shortName :: "string option"
  longName :: "string option"
  currentPrice :: "real option"
  regularMarketPrice :: "real option"
  sector :: "string option"

text \<open>
  A field of \<open>t.info\<close> is \<open>None\<close> when the key is missing or its value is null.
  Reading \<open>t.info\<close> raises, or the attribute does not exist, or it is a dict.
  Reading \<open>t.analysis\<close> raises, or is None, or is a table, of which only the
  \<open>+5y\<close> column matters (\<open>None\<close> when the table has no such column).
\<close>

datatype info_attr = InfoRaises string | InfoMissing | Info info_dict

datatype analysis_attr = AnalysisRaises string | AnalysisNone | Analysis "real option list option"

record ticker_obj =
  info :: info_attr
  analysis :: analysis_attr

type_synonym provider = "string \<Rightarrow> string + ticker_obj"

definition empty_info :: info_dict where
  "empty_info =
     \<lparr> trailingPE = None, forwardPE = None, dividendYield = None, shortName = None,
       longName = None, currentPrice = None, regularMarketPrice = None, sector = None \<rparr>"

definition truthy_num :: "real option \<Rightarrow> bool" where
  \<comment> \<open>Python truth of \<open>info.get(k)\<close> for a number: None and 0 are false\<close>
  "truthy_num x = (case x of None \<Rightarrow> False | Some v \<Rightarrow> v \<noteq> 0)"

definition truthy_str :: "string option \<Rightarrow> bool" where
  "truthy_str s = (case s of None \<Rightarrow> False | Some v \<Rightarrow> v \<noteq> [])"

definition dropna :: "real option list \<Rightarrow> real list" where
  "dropna vs = concat (map (\<lambda>v. case v of None \<Rightarrow> [] | Some x \<Rightarrow> [x]) vs)"

subsection \<open>The fetcher\<close>

definition fetch_summary :: "provider \<Rightarrow> string \<Rightarrow> string + pydict" where
  "fetch_summary yf ticker =
     (case yf ticker of
        Inl e \<Rightarrow> Inl e
      | Inr t \<Rightarrow>
         (case info t of
            InfoRaises e \<Rightarrow> Inl e
          | a \<Rightarrow>
             (let i = (case a of Info d \<Rightarrow> d | _ \<Rightarrow> empty_info);
                  trailing_pe = trailingPE i;
                  forward_pe = forwardPE i;
                  div_yield = (case dividendYield i of None \<Rightarrow> 0 | Some y \<Rightarrow> y);
                  div_yield_pct = div_yield * 100;
                  growth_pct =
                    (case analysis t of
                       Analysis (Some col) \<Rightarrow>
                         (case dropna col of [] \<Rightarrow> None | v # _ \<Rightarrow> Some (v * 100))
                     | _ \<Rightarrow> None);
                  name = (if truthy_str (shortName i) then the (shortName i)
                          else if truthy_str (longName i) then the (longName i)
                          else ticker);
                  price = (if truthy_num (currentPrice i) then currentPrice i
                           else if truthy_num (regularMarketPrice i) then regularMarketPrice i
                           else None);
                  sect = (if truthy_str (sector i) then the (sector i) else [])
              in Inr [(''Ticker'', Str ticker),
                      (''Name'', Str name),
                      (''Price'', num price),
                      (''Sector'', Str sect),
                      (''Trailing PE'', num trailing_pe),
                      (''Forward PE'', num forward_pe),
                      (''Dividend %'', Num div_yield_pct),
                      (''Analyst 5y Growth %'', num growth_pct)])))"

fun batch_rows :: "provider \<Rightarrow> string list \<Rightarrow> pydict list" where
  \<comment> \<open>the loop of \<open>batch_fetch\<close>: one dict appended per ticker\<close>
  "batch_rows yf [] = []"
| "batch_rows yf (t # ts) =
     (case fetch_summary yf t of
        Inr d \<Rightarrow> d
      | Inl e \<Rightarrow> [(''Ticker'', Str t), (''Error'', Str e)]) # batch_rows yf ts"

definition batch_fetch :: "provider \<Rightarrow> string list \<Rightarrow> frame" where
  "batch_fetch yf tickers = DataFrame (batch_rows yf tickers)"

subsection \<open>The controls of the sidebar\<close>

datatype growth_choice = Analyst_5y | Manual

datatype pe_choice = Forward_PE | Trailing_PE

record config =
  tickers_text :: string
  growth_source :: growth_choice
  manual_growth :: real
  pe_type :: pe_choice
  min_div_yield :: real
  max_pegy :: real

subsection \<open>Series operations on float cells\<close>

definition fillna :: "real \<Rightarrow> real option \<Rightarrow> real option" where
  "fillna v x = (case x of None \<Rightarrow> Some v | Some y \<Rightarrow> Some y)"

definition clip_lower :: "real \<Rightarrow> real option \<Rightarrow> real option" where
  \<comment> \<open>\<open>clip(lower=lo)\<close> leaves NaN alone\<close>
  "clip_lower lo x = (case x of None \<Rightarrow> None | Some y \<Rightarrow> Some (max lo y))"

definition add :: "real option \<Rightarrow> real option \<Rightarrow> real option" where
  "add x y = (case (x, y) of (Some a, Some b) \<Rightarrow> Some (a + b) | _ \<Rightarrow> None)"

definition replace_zero :: "real option \<Rightarrow> real option" where
  \<comment> \<open>\<open>replace({0: np.nan})\<close>\<close>
  "replace_zero x = (if x = Some 0 then None else x)"

text \<open>
  Float division. numpy does not raise on a zero divisor: it yields an infinity (or NaN
  for 0/0) and warns. The reals have no infinity, so the model makes the event an
  outcome of its own, \<open>DivideByZero\<close>, and the run block reports it; that it never
  occurs is then a theorem about the program and not a convention of HOL's \<open>x / 0 = 0\<close>.
\<close>

datatype quotient = DivideByZero | Quotient "real option"

definition truediv :: "real option \<Rightarrow> real option \<Rightarrow> quotient" where
  "truediv x y =
     (case (x, y) of
        (Some a, Some b) \<Rightarrow> if b = 0 then DivideByZero else Quotient (Some (a / b))
      | _ \<Rightarrow> Quotient None)"

definition ge :: "real option \<Rightarrow> real \<Rightarrow> bool" where
  \<comment> \<open>\<open>series >= v\<close>: false on NaN\<close>
  "ge x v = (case x of None \<Rightarrow> False | Some a \<Rightarrow> a \<ge> v)"

definition le :: "real option \<Rightarrow> real \<Rightarrow> bool" where
  "le x v = (case x of None \<Rightarrow> False | Some a \<Rightarrow> a \<le> v)"

definition rint :: "real \<Rightarrow> int" where
  \<comment> \<open>round to the nearest integer, a tie to the even one\<close>
  "rint x =
     (let f = \<lfloor>x\<rfloor>; d = x - of_int f
      in if d < 1 / 2 then f else if d > 1 / 2 then f + 1 else if even f then f else f + 1)"

definition round2 :: "real \<Rightarrow> real" where
  \<comment> \<open>\<open>np.round(x, 2)\<close>: scale by 100, round, scale back\<close>
  "round2 x = of_int (rint (x * 100)) / 100"

subsection \<open>The run block\<close>

datatype error = KeyError "string list" | Stopped | ZeroDivisor

definition choose_pe :: "config \<Rightarrow> frame \<Rightarrow> error + frame" where
  "choose_pe cfg df =
     (let pe_col = (if pe_type cfg = Forward_PE then ''Forward PE'' else ''Trailing PE'')
      in if pe_col \<notin> set (columns df) then Inl (KeyError [pe_col])
         else Inr (setcol ''PE Used''
                     (\<lambda>r. r\<lparr>PEUsed := (if pe_type cfg = Forward_PE then ForwardPE r else TrailingPE r)\<rparr>)
                     df))"

definition choose_growth :: "config \<Rightarrow> frame \<Rightarrow> error + frame" where
  "choose_growth cfg df =
     (if growth_source cfg = Analyst_5y then
        if ''Analyst 5y Growth %'' \<notin> set (columns df) then Inl (KeyError [''Analyst 5y Growth %''])
        else
          (let df1 = setcol ''Growth % Used'' (\<lambda>r. r\<lparr>GrowthUsed := AnalystGrowth r\<rparr>) df
           in Inr (setcol ''Growth % Used''
                     (\<lambda>r. r\<lparr>GrowthUsed := fillna (manual_growth cfg) (GrowthUsed r)\<rparr>) df1))
      else Inr (setcol ''Growth % Used'' (\<lambda>r. r\<lparr>GrowthUsed := Some (manual_growth cfg)\<rparr>) df))"

definition clip_columns :: "frame \<Rightarrow> error + frame" where
  "clip_columns df =
     (if ''Dividend %'' \<notin> set (columns df) then Inl (KeyError [''Dividend %''])
      else
        (let df1 = setcol ''Dividend %'' (\<lambda>r. r\<lparr>DividendPct := clip_lower 0 (DividendPct r)\<rparr>) df
         in if ''Growth % Used'' \<notin> set (columns df1) then Inl (KeyError [''Growth % Used''])
            else Inr (setcol ''Growth % Used''
                        (\<lambda>r. r\<lparr>GrowthUsed := clip_lower 0 (GrowthUsed r)\<rparr>) df1)))"

definition denom :: "row \<Rightarrow> real option" where
  "denom r = add (GrowthUsed r) (DividendPct r)"

definition pegy_of :: "row \<Rightarrow> quotient" where
  "pegy_of r = truediv (PEUsed r) (replace_zero (denom r))"

definition derive_pegy :: "frame \<Rightarrow> error + frame" where
  \<comment> \<open>\<open>denom = df["Growth % Used"] + df["Dividend %"]\<close>, then the division into \<open>df["PEGY"]\<close>\<close>
  "derive_pegy df =
     (if ''Growth % Used'' \<notin> set (columns df) then Inl (KeyError [''Growth % Used''])
      else if ''Dividend %'' \<notin> set (columns df) then Inl (KeyError [''Dividend %''])
      else if ''PE Used'' \<notin> set (columns df) then Inl (KeyError [''PE Used''])
      else if \<exists>r \<in> set (rows df). pegy_of r = DivideByZero then Inl ZeroDivisor
      else Inr (setcol ''PEGY''
                  (\<lambda>r. r\<lparr>PEGY := (case pegy_of r of Quotient q \<Rightarrow> q | DivideByZero \<Rightarrow> None)\<rparr>) df))"

definition derive :: "config \<Rightarrow> frame \<Rightarrow> error + frame" where
  \<comment> \<open>the statements from "Choose PE" to "Avoid divide-by-zero"\<close>
  "derive cfg df =
     (case choose_pe cfg df of Inl e \<Rightarrow> Inl e | Inr df1 \<Rightarrow>
      (case choose_growth cfg df1 of Inl e \<Rightarrow> Inl e | Inr df2 \<Rightarrow>
       (case clip_columns df2 of Inl e \<Rightarrow> Inl e | Inr df3 \<Rightarrow> derive_pegy df3)))"

definition apply_filters :: "config \<Rightarrow> frame \<Rightarrow> frame" where
  "apply_filters cfg df =
     (let filtered = df;
          filtered = (if min_div_yield cfg > 0
                      then filtered\<lparr>rows := filter (\<lambda>r. ge (DividendPct r) (min_div_yield cfg)) (rows filtered)\<rparr>
                      else filtered);
          filtered = (if max_pegy cfg > 0
                      then filtered\<lparr>rows := filter (\<lambda>r. le (PEGY r) (max_pegy cfg)) (rows filtered)\<rparr>
                      else filtered)
      in filtered)"

definition sort_by :: "row \<Rightarrow> bool \<times> real \<times> string" where
  \<comment> \<open>the key of \<open>by=["PEGY", "Ticker"], na_position="last"\<close>: NaN after every number\<close>
  "sort_by r = (PEGY r = None, (case PEGY r of None \<Rightarrow> 0 | Some v \<Rightarrow> v), Ticker r)"

definition sort_values :: "frame \<Rightarrow> frame" where
  \<comment> \<open>a stable sort, as pandas sorts on several columns\<close>
  "sort_values df = df\<lparr>rows := sort_key sort_by (rows df)\<rparr>"

definition display_columns :: "string list" where
  "display_columns =
     [''Ticker'', ''Name'', ''Sector'', ''Price'', ''PE Used'', ''Growth % Used'', ''Dividend %'', ''PEGY'']"

definition rounded_columns :: "string list" where
  "rounded_columns = [''Price'', ''PE Used'', ''Growth % Used'', ''Dividend %'', ''PEGY'']"

definition round_cell :: "string \<Rightarrow> cell \<Rightarrow> cell" where
  "round_cell c v =
     (if c \<in> set rounded_columns then (case v of Num x \<Rightarrow> Num (round2 x) | _ \<Rightarrow> v) else v)"

text \<open>A table as shown or written: the header and one list of cells per row.\<close>

type_synonym table = "string list \<times> cell list list"

definition display :: "frame \<Rightarrow> error + table" where
  \<comment> \<open>\<open>filtered[[...]].round({...})\<close>, the argument of \<open>st.dataframe\<close>\<close>
  "display df =
     (if \<exists>c \<in> set display_columns. c \<notin> set (columns df)
      then Inl (KeyError (filter (\<lambda>c. c \<notin> set (columns df)) display_columns))
      else Inr (display_columns,
                map (\<lambda>r. map (\<lambda>c. round_cell c (cell_at c r)) display_columns) (rows df)))"

definition to_csv :: "frame \<Rightarrow> table" where
  \<comment> \<open>\<open>to_csv(index=False)\<close>, up to the text of each cell: every column of the frame, no index\<close>
  "to_csv df = (columns df, map (\<lambda>r. map (\<lambda>c. cell_at c r) (columns df)) (rows df))"

record outcome =
  derived :: frame
  filtered :: frame
  shown :: table
  csv :: table

definition run :: "provider \<Rightarrow> config \<Rightarrow> error + outcome" where
  \<comment> \<open>what pressing "Run Screen" does\<close>
  "run yf cfg =
     (let tickers = parse_tickers (tickers_text cfg)
      in if tickers = [] then Inl Stopped
         else
           (case derive cfg (batch_fetch yf tickers) of
              Inl e \<Rightarrow> Inl e
            | Inr df \<Rightarrow>
               (let flt = sort_values (apply_filters cfg df)
                in (case display flt of
                      Inl e \<Rightarrow> Inl e
                    | Inr tbl \<Rightarrow>
                        Inr \<lparr> derived = df, filtered = flt, shown = tbl, csv = to_csv flt \<rparr>))))"

subsection \<open>Row-wise view of the run block\<close>

text \<open>
  The run block works column by column. The proofs look at one row at a time:
  \<open>derive_row\<close> is what the statements from "Choose PE" to "Avoid divide-by-zero" do to
  a row (lemma \<open>derive_rows\<close>), and \<open>fetch_dict\<close> is the dict that one turn of the
  loop of \<open>batch_fetch\<close> appends (lemma \<open>batch_rows_map\<close>).
\<close>

definition summary_keys :: "string list" where
  "summary_keys = [''Ticker'', ''Name'', ''Price'', ''Sector'', ''Trailing PE'', ''Forward PE'',
                   ''Dividend %'', ''Analyst 5y Growth %'']"

definition fetch_dict :: "provider \<Rightarrow> string \<Rightarrow> pydict" where
  "fetch_dict yf t =
     (case fetch_summary yf t of Inr d \<Rightarrow> d | Inl e \<Rightarrow> [(''Ticker'', Str t), (''Error'', Str e)])"

definition pegy_value :: "real option \<Rightarrow> real option \<Rightarrow> real option \<Rightarrow> real option" where
  "pegy_value pe g d =
     (case (pe, g, d) of
        (Some p, Some a, Some b) \<Rightarrow> if a + b = 0 then None else Some (p / (a + b))
      | _ \<Rightarrow> None)"

definition derive_row :: "config \<Rightarrow> row \<Rightarrow> row" where
  "derive_row cfg r =
     (let pe = (if pe_type cfg = Forward_PE then ForwardPE r else TrailingPE r);
          g = clip_lower 0 (if growth_source cfg = Analyst_5y
                            then fillna (manual_growth cfg) (AnalystGrowth r)
                            else Some (manual_growth cfg));
          d = clip_lower 0 (DividendPct r)
      in r\<lparr>DividendPct := d, PEUsed := pe, GrowthUsed := g, PEGY := pegy_value pe g d\<rparr>)"

subsection \<open>Test data\<close>

text \<open>
  A provider that knows two symbols and raises for every other one, a configuration, and
  the frames they give. KO has an analyst estimate and a price with three decimals; PENNY
  has a negative dividend yield, a current price of 0 and no analyst table.
\<close>

definition ko_info :: info_dict where
  "ko_info =
     \<lparr> trailingPE = Some 24, forwardPE = Some 20, dividendYield = Some (3 / 100),
       shortName = Some ''Coca-Cola'', longName = None, currentPrice = Some (481 / 8),
       regularMarketPrice = Some 60, sector = Some ''Consumer Defensive'' \<rparr>"

definition penny_info :: info_dict where
  "penny_info =
     \<lparr> trailingPE = None, forwardPE = Some 9, dividendYield = Some (- 1 / 100),
       shortName = Some [], longName = Some ''Penny Corp'', currentPrice = Some 0,
       regularMarketPrice = Some 5, sector = None \<rparr>"

definition demo :: provider where
  "demo t =
     (if t = ''KO'' then Inr \<lparr> info = Info ko_info, analysis = Analysis (Some [None, Some (7 / 100)]) \<rparr>
      else if t = ''PENNY'' then Inr \<lparr> info = Info penny_info, analysis = AnalysisRaises ''timeout'' \<rparr>
      else Inl ''boom'')"

definition demo_cfg :: config where
  "demo_cfg =
     \<lparr> tickers_text = ''ko, bad\<newline>Penny'', growth_source = Analyst_5y, manual_growth = 10,
       pe_type = Forward_PE, min_div_yield = 0, max_pegy = 0 \<rparr>"

definition ko_row :: row where
  "ko_row =
     \<lparr> Ticker = ''KO'', Name = Some ''Coca-Cola'', Price = Some (481 / 8),
       Sector = Some ''Consumer Defensive'', TrailingPE = Some 24, ForwardPE = Some 20,
       DividendPct = Some 3, AnalystGrowth = Some 7, Error = None,
       PEUsed = Some 20, GrowthUsed = Some 7, PEGY = Some 2 \<rparr>"

definition bad_row :: row where
  "bad_row =
     \<lparr> Ticker = ''BAD'', Name = None, Price = None, Sector = None, TrailingPE = None,
       ForwardPE = None, DividendPct = None, AnalystGrowth = None, Error = Some ''boom'',
       PEUsed = None, GrowthUsed = Some 10, PEGY = None \<rparr>"

definition penny_row :: row where
  "penny_row =
     \<lparr> Ticker = ''PENNY'', Name = Some ''Penny Corp'', Price = Some 5, Sector = Some [],
       TrailingPE = None, ForwardPE = Some 9, DividendPct = Some 0, AnalystGrowth = None,
       Error = None, PEUsed = Some 9, GrowthUsed = Some 10, PEGY = Some (9 / 10) \<rparr>"

definition demo_columns :: "string list" where
  "demo_columns =
     [''Ticker'', ''Name'', ''Price'', ''Sector'', ''Trailing PE'', ''Forward PE'', ''Dividend %'',
      ''Analyst 5y Growth %'', ''Error'', ''PE Used'', ''Growth % Used'', ''PEGY'']"

definition demo_derived :: frame where
  "demo_derived = \<lparr> columns = demo_columns, rows = [ko_row, bad_row, penny_row] \<rparr>"

definition blank :: "string \<Rightarrow> row" where
  \<comment> \<open>a row with its ticker and NaN in every other cell\<close>
  "blank t =
     \<lparr> Ticker = t, Name = None, Price = None, Sector = None, TrailingPE = None, ForwardPE = None,
       DividendPct = None, AnalystGrowth = None, Error = None,
       PEUsed = None, GrowthUsed = None, PEGY = None \<rparr>"

definition spec_sort_input :: frame where
  \<comment> \<open>the rows of the spec's sort example: (1.5, Z), (0.9, B), (absent, C), (0.9, A)\<close>
  "spec_sort_input =
     \<lparr> columns = [''Ticker'', ''PEGY''],
       rows = [(blank ''Z'')\<lparr>PEGY := Some (15 / 10)\<rparr>, (blank ''B'')\<lparr>PEGY := Some (9 / 10)\<rparr>,
               blank ''C'', (blank ''A'')\<lparr>PEGY := Some (9 / 10)\<rparr>] \<rparr>"

definition zero_cfg :: config where
  \<comment> \<open>as \<open>demo_cfg\<close>, with a manual growth of 0\<close>
  "zero_cfg = demo_cfg\<lparr>manual_growth := 0\<rparr>"

definition zero_row :: row where
  \<comment> \<open>PENNY under \<open>zero_cfg\<close>: growth 0 and dividend 0\<close>
  "zero_row = penny_row\<lparr>GrowthUsed := Some 0, PEGY := None\<rparr>"

definition zero_derived :: frame where
  "zero_derived =
     \<lparr> columns = demo_columns, rows = [ko_row, bad_row\<lparr>GrowthUsed := Some 0\<rparr>, zero_row] \<rparr>"

definition neg_cfg :: config where
  \<comment> \<open>manual growth for every ticker, and a negative one\<close>
  "neg_cfg = demo_cfg\<lparr>growth_source := Manual, manual_growth := - 2\<rparr>"

definition neg_derived :: frame where
  "neg_derived =
     \<lparr> columns = demo_columns,
       rows = [ko_row\<lparr>GrowthUsed := Some 0, PEGY := Some (20 / 3)\<rparr>,
               bad_row\<lparr>GrowthUsed := Some 0\<rparr>, zero_row] \<rparr>"

definition capped_cfg :: config where
  \<comment> \<open>as \<open>demo_cfg\<close>, with the PEGY filter at 1\<close>
  "capped_cfg = demo_cfg\<lparr>max_pegy := 1\<rparr>"

definition demo_out :: outcome where
  "demo_out =
     \<lparr> derived = demo_derived,
       filtered = \<lparr> columns = demo_columns, rows = [penny_row, ko_row, bad_row] \<rparr>,
       shown =
         (display_columns,
          [[Str ''PENNY'', Str ''Penny Corp'', Str [], Num 5, Num 9, Num 10, Num 0, Num (9 / 10)],
           [Str ''KO'', Str ''Coca-Cola'', Str ''Consumer Defensive'', Num (6012 / 100), Num 20, Num 7,
            Num 3, Num 2],
           [Str ''BAD'', NaN, NaN, NaN, NaN, Num 10, NaN, NaN]]),
       csv =
         (demo_columns,
          [[Str ''PENNY'', Str ''Penny Corp'', Num 5, Str [], NaN, Num 9, Num 0, NaN, NaN, Num 9,
            Num 10, Num (9 / 10)],
           [Str ''KO'', Str ''Coca-Cola'', Num (481 / 8), Str ''Consumer Defensive'', Num 24, Num 20,
            Num 3, Num 7, NaN, Num 20, Num 7, Num 2],
           [Str ''BAD'', NaN, NaN, NaN, NaN, NaN, NaN, NaN, Str ''boom'', NaN, Num 10, NaN]]) \<rparr>"

section \<open>Properties of the ticker parser\<close>

lemma split_not_Nil: "split sep s \<noteq> []"
  by (induction s) auto

lemma split_append: "split sep (a @ sep # b) = split sep a @ split sep b"
  by (induction a) (auto simp: split_not_Nil)

lemma split_no_sep: "sep \<notin> set s \<Longrightarrow> split sep s = [s]"
  by (induction s) auto

lemma upper_Nil_iff: "upper s = [] \<longleftrightarrow> s = []"
  by (simp add: upper_def)

lemma parse_tickers_append:
  assumes "sep = CHR '','' \<or> sep = CHR 0x0A"
  shows "parse_tickers (a @ sep # b) = parse_tickers a @ parse_tickers b"
proof -
  have "replace (CHR 0x0A) (CHR '','') (a @ sep # b)
        = replace (CHR 0x0A) (CHR '','') a @ CHR '','' # replace (CHR 0x0A) (CHR '','') b"
    using assms by (auto simp: replace_def)
  then show ?thesis
    by (simp add: parse_tickers_def split_append)
qed

lemma parse_tickers_token:
  assumes "CHR '','' \<notin> set t" and "CHR 0x0A \<notin> set t"
  shows "parse_tickers t = (if strip t = [] then [] else [upper (strip t)])"
proof -
  have "replace (CHR 0x0A) (CHR '','') t = t"
    using assms(2) by (induction t) (auto simp: replace_def)
  then show ?thesis
    using assms(1) by (simp add: parse_tickers_def split_no_sep upper_Nil_iff)
qed

text \<open>
  C1, as stated: the parser returns a deduplicated list. It does not: nothing in
  \<open>parse_tickers\<close> removes a repeated symbol, and the input \<open>AAPL, AAPL\<close> comes
  back as two symbols.
\<close>

theorem parse_tickers_keeps_duplicates:
  "parse_tickers ''AAPL, AAPL'' = [''AAPL'', ''AAPL''] \<and> \<not> distinct (parse_tickers ''AAPL, AAPL'')"
  by (simp add: parse_tickers_def upper_def upper_char_def strip_def isspace_def replace_def)

text \<open>
  C1, amended: the parser returns the symbols in input order, one per non-empty token,
  repeated symbols kept. The output for \<open>a\<close>, a separator (comma or newline) and
  \<open>b\<close> is the output for \<open>a\<close> followed by the output for \<open>b\<close>, and a text
  without separator gives its trimmed upper-cased token, or nothing when that is empty.
\<close>

theorem parse_tickers_order_preserving:
  "[] \<notin> set (parse_tickers s) \<and>
   parse_tickers (a @ CHR '','' # b) = parse_tickers a @ parse_tickers b \<and>
   parse_tickers (a @ CHR 0x0A # b) = parse_tickers a @ parse_tickers b \<and>
   (CHR '','' \<notin> set t \<and> CHR 0x0A \<notin> set t \<longrightarrow>
      parse_tickers t = (if strip t = [] then [] else [upper (strip t)]))"
  using parse_tickers_append [of "CHR '',''" a b] parse_tickers_append [of "CHR 0x0A" a b]
    parse_tickers_token [of t]
  by (simp add: parse_tickers_def)

theorem parse_tickers_order_preserving_witness:
  "parse_tickers (''msft'' @ CHR '','' # '' ko'') = parse_tickers ''msft'' @ parse_tickers '' ko'' \<and>
   parse_tickers (''msft'' @ CHR 0x0A # '' ko'') = parse_tickers ''msft'' @ parse_tickers '' ko'' \<and>
   CHR '','' \<notin> set '' ko '' \<and> CHR 0x0A \<notin> set '' ko '' \<and>
   parse_tickers '' ko '' = (if strip '' ko '' = [] then [] else [upper (strip '' ko '')]) \<and>
   strip '' ko '' = ''ko''"
proof -
  have h: "CHR '','' \<notin> set '' ko '' \<and> CHR 0x0A \<notin> set '' ko ''"
    by simp
  have s: "strip '' ko '' = ''ko''"
    by (simp add: strip_def isspace_def)
  from parse_tickers_order_preserving [of _ "''msft''" "'' ko''" "'' ko ''"] h s
  show ?thesis by blast
qed

section \<open>Auxiliary facts about the fetcher and the run block\<close>

lemma set_uniq: "set (uniq ks) = set ks"
  by (induction ks) auto

lemma distinct_uniq: "distinct (uniq ks)"
  by (induction ks) (auto simp: set_uniq)

lemma batch_rows_map: "batch_rows yf ts = map (fetch_dict yf) ts"
  by (induction ts) (simp_all add: fetch_dict_def)

lemma fetch_summary_shape:
  assumes "fetch_summary yf t = Inr d"
  shows "\<exists>n p s a b y g.
           d = [(''Ticker'', Str t), (''Name'', Str n), (''Price'', num p), (''Sector'', Str s),
                (''Trailing PE'', num a), (''Forward PE'', num b), (''Dividend %'', Num y),
                (''Analyst 5y Growth %'', num g)]"
proof (cases "yf t")
  case (Inl e)
  with assms show ?thesis by (simp add: fetch_summary_def)
next
  case (Inr obj)
  show ?thesis
  proof (cases "info obj")
    case (InfoRaises e)
    with Inr assms show ?thesis by (simp add: fetch_summary_def)
  next
    case InfoMissing
    from Inr InfoMissing assms show ?thesis
      unfolding fetch_summary_def Let_def by simp blast
  next
    case (Info i)
    from Inr Info assms show ?thesis
      unfolding fetch_summary_def Let_def by simp blast
  qed
qed

lemma to_row_summary:
  "to_row [(''Ticker'', Str t), (''Name'', Str n), (''Price'', num p), (''Sector'', Str s),
           (''Trailing PE'', num a), (''Forward PE'', num b), (''Dividend %'', Num y),
           (''Analyst 5y Growth %'', num g)]
   = \<lparr> Ticker = t, Name = Some n, Price = p, Sector = Some s, TrailingPE = a, ForwardPE = b,
       DividendPct = Some y, AnalystGrowth = g, Error = None,
       PEUsed = None, GrowthUsed = None, PEGY = None \<rparr>"
  by (simp add: to_row_def get_num_def get_str_def num_def split: option.splits)

lemma to_row_error:
  "to_row [(''Ticker'', Str t), (''Error'', Str e)]
   = \<lparr> Ticker = t, Name = None, Price = None, Sector = None, TrailingPE = None, ForwardPE = None,
       DividendPct = None, AnalystGrowth = None, Error = Some e,
       PEUsed = None, GrowthUsed = None, PEGY = None \<rparr>"
  by (simp add: to_row_def get_num_def get_str_def)

lemma pegy_of_not_zero: "pegy_of r \<noteq> DivideByZero"
  by (auto simp: pegy_of_def truediv_def replace_zero_def split: option.splits)

lemma choose_pe_Inr:
  assumes "choose_pe cfg df = Inr df'"
  shows "rows df' = map (\<lambda>r. r\<lparr>PEUsed := (if pe_type cfg = Forward_PE then ForwardPE r else TrailingPE r)\<rparr>) (rows df)"
    and "columns df' = (if ''PE Used'' \<in> set (columns df) then columns df else columns df @ [''PE Used''])"
    and "(if pe_type cfg = Forward_PE then ''Forward PE'' else ''Trailing PE'') \<in> set (columns df)"
  using assms by (auto simp: choose_pe_def setcol_def Let_def split: if_splits)

lemma choose_growth_Inr:
  assumes "choose_growth cfg df = Inr df'"
  shows "rows df' = map (\<lambda>r. r\<lparr>GrowthUsed := (if growth_source cfg = Analyst_5y
                            then fillna (manual_growth cfg) (AnalystGrowth r)
                            else Some (manual_growth cfg))\<rparr>) (rows df)"
    and "columns df' = (if ''Growth % Used'' \<in> set (columns df) then columns df else columns df @ [''Growth % Used''])"
  using assms by (auto simp: choose_growth_def setcol_def Let_def split: if_splits)

lemma clip_columns_Inr:
  assumes "clip_columns df = Inr df'"
  shows "rows df' = map (\<lambda>r. r\<lparr>DividendPct := clip_lower 0 (DividendPct r), GrowthUsed := clip_lower 0 (GrowthUsed r)\<rparr>) (rows df)"
    and "columns df' = columns df"
    and "''Dividend %'' \<in> set (columns df)" and "''Growth % Used'' \<in> set (columns df)"
  using assms by (auto simp: clip_columns_def setcol_def Let_def split: if_splits)

lemma derive_pegy_Inr:
  assumes "derive_pegy df = Inr df'"
  shows "rows df' = map (\<lambda>r. r\<lparr>PEGY := (case pegy_of r of Quotient q \<Rightarrow> q | DivideByZero \<Rightarrow> None)\<rparr>) (rows df)"
    and "columns df' = (if ''PEGY'' \<in> set (columns df) then columns df else columns df @ [''PEGY''])"
  using assms by (auto simp: derive_pegy_def setcol_def Let_def split: if_splits)

lemma derive_pegy_no_zero: "derive_pegy df \<noteq> Inl ZeroDivisor"
  by (simp add: derive_pegy_def pegy_of_not_zero)

lemma derive_steps:
  assumes "derive cfg df = Inr df'"
  obtains df1 df2 df3 where "choose_pe cfg df = Inr df1" and "choose_growth cfg df1 = Inr df2"
    and "clip_columns df2 = Inr df3" and "derive_pegy df3 = Inr df'"
  using assms unfolding derive_def by (auto split: sum.splits)

lemma pegy_of_value:
  "(case pegy_of r of Quotient q \<Rightarrow> q | DivideByZero \<Rightarrow> None)
   = pegy_value (PEUsed r) (GrowthUsed r) (DividendPct r)"
  by (simp add: pegy_of_def pegy_value_def truediv_def replace_zero_def denom_def add_def
           split: option.splits)

lemma derive_row_steps:
  "derive_row cfg r =
   (\<lambda>r. r\<lparr>PEGY := (case pegy_of r of Quotient q \<Rightarrow> q | DivideByZero \<Rightarrow> None)\<rparr>)
    ((\<lambda>r. r\<lparr>DividendPct := clip_lower 0 (DividendPct r), GrowthUsed := clip_lower 0 (GrowthUsed r)\<rparr>)
     ((\<lambda>r. r\<lparr>GrowthUsed := (if growth_source cfg = Analyst_5y
                            then fillna (manual_growth cfg) (AnalystGrowth r)
                            else Some (manual_growth cfg))\<rparr>)
      ((\<lambda>r. r\<lparr>PEUsed := (if pe_type cfg = Forward_PE then ForwardPE r else TrailingPE r)\<rparr>) r)))"
  unfolding pegy_of_value by (cases r) (simp add: derive_row_def Let_def)

lemma derive_rows:
  assumes "derive cfg df = Inr df'"
  shows "rows df' = map (derive_row cfg) (rows df)"
proof -
  from assms obtain df1 df2 df3 where
    s: "choose_pe cfg df = Inr df1" "choose_growth cfg df1 = Inr df2"
       "clip_columns df2 = Inr df3" "derive_pegy df3 = Inr df'"
    by (rule derive_steps)
  show ?thesis
    unfolding derive_pegy_Inr(1)[OF s(4)] clip_columns_Inr(1)[OF s(3)]
      choose_growth_Inr(1)[OF s(2)] choose_pe_Inr(1)[OF s(1)] map_map comp_def
      derive_row_steps ..
qed

lemma choose_pe_no_zero: "choose_pe cfg df \<noteq> Inl ZeroDivisor"
  by (simp add: choose_pe_def Let_def)

lemma choose_growth_no_zero: "choose_growth cfg df \<noteq> Inl ZeroDivisor"
  by (simp add: choose_growth_def Let_def)

lemma clip_columns_no_zero: "clip_columns df \<noteq> Inl ZeroDivisor"
  by (simp add: clip_columns_def Let_def)

lemma derive_no_zero: "derive cfg df \<noteq> Inl ZeroDivisor"
  using choose_pe_no_zero [of cfg df] choose_growth_no_zero [of cfg] clip_columns_no_zero
    derive_pegy_no_zero
  by (auto simp: derive_def split: sum.splits)

lemma derive_columns:
  assumes "derive cfg df = Inr df'"
    and "''PE Used'' \<notin> set (columns df)" and "''Growth % Used'' \<notin> set (columns df)"
    and "''PEGY'' \<notin> set (columns df)"
  shows "columns df' = columns df @ [''PE Used'', ''Growth % Used'', ''PEGY'']"
proof -
  from assms(1) obtain df1 df2 df3 where
    s: "choose_pe cfg df = Inr df1" "choose_growth cfg df1 = Inr df2"
       "clip_columns df2 = Inr df3" "derive_pegy df3 = Inr df'"
    by (rule derive_steps)
  have c1: "columns df1 = columns df @ [''PE Used'']"
    using choose_pe_Inr(2)[OF s(1)] assms(2) by simp
  have c2: "columns df2 = columns df @ [''PE Used'', ''Growth % Used'']"
    using choose_growth_Inr(2)[OF s(2)] assms(3) c1 by simp
  have c3: "columns df3 = columns df2"
    by (rule clip_columns_Inr(2)[OF s(3)])
  show ?thesis
    using derive_pegy_Inr(2)[OF s(4)] assms(4) c2 c3 by simp
qed

lemma derive_needs:
  assumes "derive cfg df = Inr df'"
  shows "''Dividend %'' \<in> set (columns df)"
proof -
  from assms(1) obtain df1 df2 df3 where
    s: "choose_pe cfg df = Inr df1" "choose_growth cfg df1 = Inr df2"
       "clip_columns df2 = Inr df3" "derive_pegy df3 = Inr df'"
    by (rule derive_steps)
  have "''Dividend %'' \<in> set (columns df2)" by (rule clip_columns_Inr(3)[OF s(3)])
  then have "''Dividend %'' \<in> set (columns df1)"
    using choose_growth_Inr(2)[OF s(2)] by (simp split: if_splits)
  then show ?thesis
    using choose_pe_Inr(2)[OF s(1)] by (simp split: if_splits)
qed

lemma batch_fetch_rows: "rows (batch_fetch yf ts) = map (\<lambda>t. to_row (fetch_dict yf t)) ts"
  by (simp add: batch_fetch_def DataFrame_def batch_rows_map)

lemma fetch_dict_keys:
  "map fst (fetch_dict yf t) = (case fetch_summary yf t of Inr d \<Rightarrow> summary_keys | Inl e \<Rightarrow> [''Ticker'', ''Error''])"
proof (cases "fetch_summary yf t")
  case (Inl e) then show ?thesis by (simp add: fetch_dict_def)
next
  case (Inr d)
  from fetch_summary_shape[OF Inr] show ?thesis
    using Inr by (auto simp: fetch_dict_def summary_keys_def)
qed

lemma batch_fetch_columns_set:
  "set (columns (batch_fetch yf ts)) =
     (\<Union>t \<in> set ts. case fetch_summary yf t of Inr d \<Rightarrow> set summary_keys | Inl e \<Rightarrow> {''Ticker'', ''Error''})"
proof -
  have "set (columns (batch_fetch yf ts)) = (\<Union>t \<in> set ts. set (map fst (fetch_dict yf t)))"
    by (simp add: batch_fetch_def DataFrame_def batch_rows_map set_uniq)
  also have "\<dots> = (\<Union>t \<in> set ts. case fetch_summary yf t of Inr d \<Rightarrow> set summary_keys | Inl e \<Rightarrow> {''Ticker'', ''Error''})"
    unfolding fetch_dict_keys by (rule SUP_cong) (auto split: sum.splits)
  finally show ?thesis .
qed

lemma batch_fetch_no_derived_columns:
  "''PE Used'' \<notin> set (columns (batch_fetch yf ts))"
  "''Growth % Used'' \<notin> set (columns (batch_fetch yf ts))"
  "''PEGY'' \<notin> set (columns (batch_fetch yf ts))"
  unfolding batch_fetch_columns_set by (auto simp: summary_keys_def split: sum.splits)

lemma batch_fetch_dividend_column:
  "''Dividend %'' \<in> set (columns (batch_fetch yf ts)) \<longleftrightarrow> (\<exists>t \<in> set ts. \<not> isl (fetch_summary yf t))"
proof -
  have "(''Dividend %'' \<in> (case x of Inr d \<Rightarrow> set summary_keys | Inl e \<Rightarrow> {''Ticker'', ''Error''}))
        \<longleftrightarrow> \<not> isl x" for x :: "string + pydict"
    by (cases x) (simp_all add: summary_keys_def)
  then show ?thesis
    unfolding batch_fetch_columns_set by simp
qed

lemmas eval_defs =
  fetch_summary_def to_row_def get_num_def get_str_def num_def str_def DataFrame_def batch_fetch_def
  truthy_num_def truthy_str_def dropna_def empty_info_def
  choose_pe_def choose_growth_def clip_columns_def derive_pegy_def derive_def setcol_def
  fillna_def clip_lower_def add_def replace_zero_def truediv_def denom_def pegy_of_def
  apply_filters_def ge_def le_def sort_values_def sort_by_def Let_def

lemma parse_demo: "parse_tickers (tickers_text demo_cfg) = [''KO'', ''BAD'', ''PENNY'']"
  by code_simp

lemma fetch_demo:
  "batch_fetch demo [''KO'', ''BAD'', ''PENNY''] =
     \<lparr> columns = [''Ticker'', ''Name'', ''Price'', ''Sector'', ''Trailing PE'', ''Forward PE'',
                   ''Dividend %'', ''Analyst 5y Growth %'', ''Error''],
       rows = [ko_row\<lparr>PEUsed := None, GrowthUsed := None, PEGY := None\<rparr>,
               bad_row\<lparr>GrowthUsed := None\<rparr>,
               penny_row\<lparr>DividendPct := Some (- 1), PEUsed := None, GrowthUsed := None, PEGY := None\<rparr>] \<rparr>"
  by (simp add: eval_defs demo_def ko_info_def penny_info_def ko_row_def bad_row_def penny_row_def)

lemma derive_demo: "derive demo_cfg (batch_fetch demo [''KO'', ''BAD'', ''PENNY'']) = Inr demo_derived"
  unfolding fetch_demo
  by (simp add: eval_defs demo_cfg_def demo_derived_def demo_columns_def ko_row_def bad_row_def penny_row_def)

lemma fetch_dict_row_ok:
  assumes "fetch_summary yf t = Inr d"
  shows "to_row (fetch_dict yf t) = to_row d" and "Ticker (to_row d) = t" and "Error (to_row d) = None"
    and "DividendPct (to_row d) \<noteq> None" and "Name (to_row d) \<noteq> None" and "Sector (to_row d) \<noteq> None"
    and "PEUsed (to_row d) = None" and "GrowthUsed (to_row d) = None" and "PEGY (to_row d) = None"
  using fetch_summary_shape [OF assms] assms
  by (auto simp: fetch_dict_def to_row_summary)

lemma fetch_dict_row_error:
  assumes "fetch_summary yf t = Inl e"
  shows "to_row (fetch_dict yf t) =
     \<lparr> Ticker = t, Name = None, Price = None, Sector = None, TrailingPE = None, ForwardPE = None,
       DividendPct = None, AnalystGrowth = None, Error = Some e,
       PEUsed = None, GrowthUsed = None, PEGY = None \<rparr>"
  using assms by (simp add: fetch_dict_def to_row_error)

text \<open>
  C8: \<open>batch_fetch\<close> returns one row per input ticker, in input order. Where
  \<open>fetch_summary\<close> raises, the row carries the ticker and the error message and nothing
  else; every other ticker still gets the row of its own summary.
\<close>

theorem batch_fetch_one_row_per_ticker:
  "length (rows (batch_fetch yf tickers)) = length tickers \<and>
   map Ticker (rows (batch_fetch yf tickers)) = tickers \<and>
   (\<forall>i < length tickers.
      case fetch_summary yf (tickers ! i) of
        Inl e \<Rightarrow>
          rows (batch_fetch yf tickers) ! i =
            \<lparr> Ticker = tickers ! i, Name = None, Price = None, Sector = None, TrailingPE = None,
              ForwardPE = None, DividendPct = None, AnalystGrowth = None, Error = Some e,
              PEUsed = None, GrowthUsed = None, PEGY = None \<rparr>
      | Inr d \<Rightarrow>
          rows (batch_fetch yf tickers) ! i = to_row d \<and> Error (to_row d) = None)"
proof -
  have t: "Ticker (to_row (fetch_dict yf t)) = t" for t
    by (cases "fetch_summary yf t") (simp_all add: fetch_dict_row_error fetch_dict_row_ok)
  have "map Ticker (rows (batch_fetch yf tickers)) = tickers"
    unfolding batch_fetch_rows by (simp add: t comp_def)
  moreover have "length (rows (batch_fetch yf tickers)) = length tickers"
    by (simp add: batch_fetch_rows)
  moreover have "case fetch_summary yf (tickers ! i) of
        Inl e \<Rightarrow>
          rows (batch_fetch yf tickers) ! i =
            \<lparr> Ticker = tickers ! i, Name = None, Price = None, Sector = None, TrailingPE = None,
              ForwardPE = None, DividendPct = None, AnalystGrowth = None, Error = Some e,
              PEUsed = None, GrowthUsed = None, PEGY = None \<rparr>
      | Inr d \<Rightarrow>
          rows (batch_fetch yf tickers) ! i = to_row d \<and> Error (to_row d) = None"
    if "i < length tickers" for i
    using that
    by (cases "fetch_summary yf (tickers ! i)")
       (simp_all add: batch_fetch_rows fetch_dict_row_error fetch_dict_row_ok)
  ultimately show ?thesis by blast
qed

theorem batch_fetch_one_row_per_ticker_witness:
  "length (rows (batch_fetch demo [''KO'', ''BAD'', ''PENNY''])) = 3 \<and>
   map Ticker (rows (batch_fetch demo [''KO'', ''BAD'', ''PENNY''])) = [''KO'', ''BAD'', ''PENNY''] \<and>
   fetch_summary demo ''BAD'' = Inl ''boom'' \<and>
   rows (batch_fetch demo [''KO'', ''BAD'', ''PENNY'']) ! 1 =
     \<lparr> Ticker = ''BAD'', Name = None, Price = None, Sector = None, TrailingPE = None,
       ForwardPE = None, DividendPct = None, AnalystGrowth = None, Error = Some ''boom'',
       PEUsed = None, GrowthUsed = None, PEGY = None \<rparr> \<and>
   map DividendPct (rows (batch_fetch demo [''KO'', ''BAD'', ''PENNY''])) = [Some 3, None, Some (- 1)]"
proof -
  let ?ts = "[''KO'', ''BAD'', ''PENNY'']"
  have f: "fetch_summary demo (?ts ! 1) = Inl ''boom''"
    by (simp add: fetch_summary_def demo_def)
  have d: "map DividendPct (rows (batch_fetch demo ?ts)) = [Some 3, None, Some (- 1)]"
    unfolding fetch_demo by (simp add: ko_row_def bad_row_def penny_row_def)
  note t = batch_fetch_one_row_per_ticker [of demo ?ts]
  from t have a: "length (rows (batch_fetch demo ?ts)) = length ?ts" by (rule conjunct1)
  from t have b: "map Ticker (rows (batch_fetch demo ?ts)) = ?ts" by blast
  from t have "(1::nat) < length ?ts \<longrightarrow>
      (case fetch_summary demo (?ts ! 1) of
        Inl e \<Rightarrow>
          rows (batch_fetch demo ?ts) ! 1 =
            \<lparr> Ticker = ?ts ! 1, Name = None, Price = None, Sector = None, TrailingPE = None,
              ForwardPE = None, DividendPct = None, AnalystGrowth = None, Error = Some e,
              PEUsed = None, GrowthUsed = None, PEGY = None \<rparr>
      | Inr d \<Rightarrow>
          rows (batch_fetch demo ?ts) ! 1 = to_row d \<and> Error (to_row d) = None)"
    by blast
  then have c: "rows (batch_fetch demo ?ts) ! 1 =
            \<lparr> Ticker = ?ts ! 1, Name = None, Price = None, Sector = None, TrailingPE = None,
              ForwardPE = None, DividendPct = None, AnalystGrowth = None, Error = Some ''boom'',
              PEUsed = None, GrowthUsed = None, PEGY = None \<rparr>"
    unfolding f by simp
  from a b c d f show ?thesis by simp
qed

text \<open>
  C5, as stated: the fetched price is the current price whenever that field is present,
  a present 0 included. It is not: \<open>a or b or nan\<close> takes the first operand that is true,
  and 0 is false. The provider \<open>demo\<close> reports a current price of 0 and a regular market
  price of 5 for PENNY, and the fetched price is 5.
\<close>

theorem price_zero_is_skipped:
  "demo ''PENNY'' = Inr \<lparr> info = Info penny_info, analysis = AnalysisRaises ''timeout'' \<rparr> \<and>
   currentPrice penny_info = Some 0 \<and>
   regularMarketPrice penny_info = Some 5 \<and>
   map Price (rows (batch_fetch demo [''PENNY''])) = [Some 5]"
  by (simp add: eval_defs demo_def penny_info_def)

text \<open>
  C5, amended: the fetched price is the current price when that field is present and not
  0; otherwise the regular market price when that field is present and not 0; otherwise
  it is absent. A price of 0 counts as missing.
\<close>

theorem fetch_summary_price:
  assumes "yf t = Inr obj" and "info obj = Info i"
  shows "\<exists>d. fetch_summary yf t = Inr d \<and>
           Price (to_row d) =
             (if currentPrice i \<noteq> None \<and> currentPrice i \<noteq> Some 0 then currentPrice i
              else if regularMarketPrice i \<noteq> None \<and> regularMarketPrice i \<noteq> Some 0
                   then regularMarketPrice i
              else None)"
proof -
  have tr: "truthy_num x \<longleftrightarrow> x \<noteq> None \<and> x \<noteq> Some 0" for x
    by (simp add: truthy_num_def split: option.splits)
  show ?thesis
    using assms
    by (simp add: fetch_summary_def Let_def to_row_def get_num_def num_def tr split: option.splits)
qed

theorem fetch_summary_price_witness:
  "demo ''KO'' = Inr \<lparr> info = Info ko_info, analysis = Analysis (Some [None, Some (7 / 100)]) \<rparr> \<and>
   info \<lparr> info = Info ko_info, analysis = Analysis (Some [None, Some (7 / 100)]) \<rparr> = Info ko_info \<and>
   currentPrice ko_info = Some (481 / 8) \<and>
   (\<exists>d. fetch_summary demo ''KO'' = Inr d \<and> Price (to_row d) = Some (481 / 8))"
proof -
  have a: "demo ''KO'' = Inr \<lparr> info = Info ko_info, analysis = Analysis (Some [None, Some (7 / 100)]) \<rparr>"
    by (simp add: demo_def)
  have b: "info \<lparr> info = Info ko_info, analysis = Analysis (Some [None, Some (7 / 100)]) \<rparr> = Info ko_info"
    by simp
  have c: "currentPrice ko_info = Some (481 / 8)"
    by (simp add: ko_info_def)
  from fetch_summary_price
         [of demo "''KO''" "\<lparr> info = Info ko_info, analysis = Analysis (Some [None, Some (7 / 100)]) \<rparr>"
             ko_info, OF a b] c a b
  show ?thesis by simp
qed

lemma ge_iff: "ge x v \<longleftrightarrow> (\<exists>d. x = Some d \<and> v \<le> d)"
  by (cases x) (simp_all add: ge_def)

lemma le_iff: "le x v \<longleftrightarrow> (\<exists>p. x = Some p \<and> p \<le> v)"
  by (cases x) (simp_all add: le_def)

lemma apply_filters_rows:
  "rows (apply_filters cfg df) =
     filter (\<lambda>r. (0 < min_div_yield cfg \<longrightarrow> ge (DividendPct r) (min_div_yield cfg)) \<and>
                  (0 < max_pegy cfg \<longrightarrow> le (PEGY r) (max_pegy cfg))) (rows df)"
  by (simp add: apply_filters_def Let_def conj_commute)

lemma apply_filters_columns: "columns (apply_filters cfg df) = columns df"
  by (simp add: apply_filters_def Let_def)

text \<open>
  C6: with thresholds that are not negative, the filter step keeps exactly the rows whose
  Dividend % is a number at least \<open>min_div_yield\<close> (no test at all when that is 0) and
  whose PEGY is a number at most \<open>max_pegy\<close> (no test at all when that is 0), in their
  order; so a row with NaN PEGY never survives a positive \<open>max_pegy\<close>.
\<close>

theorem apply_filters_keeps_exactly:
  assumes "0 \<le> min_div_yield cfg" and "0 \<le> max_pegy cfg"
  shows "rows (apply_filters cfg df) =
           filter (\<lambda>r. (min_div_yield cfg = 0 \<or> (\<exists>d. DividendPct r = Some d \<and> min_div_yield cfg \<le> d)) \<and>
                        (max_pegy cfg = 0 \<or> (\<exists>p. PEGY r = Some p \<and> p \<le> max_pegy cfg)))
                  (rows df) \<and>
         columns (apply_filters cfg df) = columns df \<and>
         (0 < max_pegy cfg \<longrightarrow> (\<forall>r \<in> set (rows (apply_filters cfg df)). PEGY r \<noteq> None))"
proof -
  have a: "(0 < min_div_yield cfg \<longrightarrow> P) \<longleftrightarrow> (min_div_yield cfg = 0 \<or> P)" for P
    using assms(1) by auto
  have b: "(0 < max_pegy cfg \<longrightarrow> P) \<longleftrightarrow> (max_pegy cfg = 0 \<or> P)" for P
    using assms(2) by auto
  have "rows (apply_filters cfg df) =
           filter (\<lambda>r. (min_div_yield cfg = 0 \<or> (\<exists>d. DividendPct r = Some d \<and> min_div_yield cfg \<le> d)) \<and>
                        (max_pegy cfg = 0 \<or> (\<exists>p. PEGY r = Some p \<and> p \<le> max_pegy cfg)))
                  (rows df)"
    unfolding apply_filters_rows a b ge_iff le_iff ..
  moreover have "\<forall>r \<in> set (rows (apply_filters cfg df)). PEGY r \<noteq> None" if "0 < max_pegy cfg"
    using that unfolding apply_filters_rows by (auto simp: le_iff)
  ultimately show ?thesis
    by (simp add: apply_filters_columns)
qed

theorem apply_filters_keeps_exactly_witness:
  "(0::real) \<le> min_div_yield (demo_cfg\<lparr>max_pegy := 1\<rparr>) \<and>
   (0::real) \<le> max_pegy (demo_cfg\<lparr>max_pegy := 1\<rparr>) \<and>
   rows (apply_filters (demo_cfg\<lparr>max_pegy := 1\<rparr>)
          \<lparr> columns = [''Ticker'', ''PEGY''],
            rows = [(blank ''A'')\<lparr>PEGY := Some (8 / 10)\<rparr>, (blank ''B'')\<lparr>PEGY := Some (12 / 10)\<rparr>, blank ''C''] \<rparr>)
     = [(blank ''A'')\<lparr>PEGY := Some (8 / 10)\<rparr>]"
proof -
  let ?cfg = "demo_cfg\<lparr>max_pegy := 1\<rparr>"
  let ?df = "\<lparr> columns = [''Ticker'', ''PEGY''],
            rows = [(blank ''A'')\<lparr>PEGY := Some (8 / 10)\<rparr>, (blank ''B'')\<lparr>PEGY := Some (12 / 10)\<rparr>, blank ''C''] \<rparr>"
  have h1: "0 \<le> min_div_yield ?cfg" by (simp add: demo_cfg_def)
  have h2: "0 \<le> max_pegy ?cfg" by (simp add: demo_cfg_def)
  from apply_filters_keeps_exactly [OF h1 h2, of ?df]
  have "rows (apply_filters ?cfg ?df) =
           filter (\<lambda>r. (min_div_yield ?cfg = 0 \<or> (\<exists>d. DividendPct r = Some d \<and> min_div_yield ?cfg \<le> d)) \<and>
                        (max_pegy ?cfg = 0 \<or> (\<exists>p. PEGY r = Some p \<and> p \<le> max_pegy ?cfg)))
                  (rows ?df)"
    by (rule conjunct1)
  also have "\<dots> = [(blank ''A'')\<lparr>PEGY := Some (8 / 10)\<rparr>]"
    unfolding ge_iff [symmetric] le_iff [symmetric]
    by (simp add: demo_cfg_def blank_def le_def)
  finally show ?thesis using h1 h2 by simp
qed

lemma sort_by_le:
  "sort_by a \<le> sort_by b \<longleftrightarrow>
     (case (PEGY a, PEGY b) of
        (Some x, Some y) \<Rightarrow> x < y \<or> (x = y \<and> Ticker a \<le> Ticker b)
      | (Some x, None) \<Rightarrow> True
      | (None, Some y) \<Rightarrow> False
      | (None, None) \<Rightarrow> Ticker a \<le> Ticker b)"
  by (auto simp: sort_by_def split: option.splits)

lemma sort_values_sorted:
  assumes "i < j" and "j < length (rows (sort_values df))"
  shows "sort_by (rows (sort_values df) ! i) \<le> sort_by (rows (sort_values df) ! j)"
proof -
  have "sorted (map sort_by (rows (sort_values df)))"
    by (simp add: sort_values_def)
  then have "map sort_by (rows (sort_values df)) ! i \<le> map sort_by (rows (sort_values df)) ! j"
    using assms unfolding sorted_iff_nth_mono_less by (auto simp del: nth_map)
  then show ?thesis
    using assms by simp
qed

text \<open>
  C7: the ranking step is a permutation of the filtered rows in which, of any two rows,
  the earlier one has the smaller PEGY, or the same PEGY and a Ticker that is not larger,
  and no row with NaN PEGY stands before a row that has a PEGY (rows with NaN PEGY are
  among themselves in Ticker order). On the four rows of the spec's example the result is
  (0.9, A), (0.9, B), (1.5, Z), (absent, C).
\<close>

theorem sort_values_ranks:
  "mset (rows (sort_values df)) = mset (rows df) \<and>
   columns (sort_values df) = columns df \<and>
   (\<forall>i j. i < j \<and> j < length (rows (sort_values df)) \<longrightarrow>
      (PEGY (rows (sort_values df) ! i) = None \<longrightarrow> PEGY (rows (sort_values df) ! j) = None) \<and>
      (\<forall>x y. PEGY (rows (sort_values df) ! i) = Some x \<and> PEGY (rows (sort_values df) ! j) = Some y \<longrightarrow>
         x < y \<or> (x = y \<and> Ticker (rows (sort_values df) ! i) \<le> Ticker (rows (sort_values df) ! j))) \<and>
      (PEGY (rows (sort_values df) ! i) = None \<and> PEGY (rows (sort_values df) ! j) = None \<longrightarrow>
         Ticker (rows (sort_values df) ! i) \<le> Ticker (rows (sort_values df) ! j))) \<and>
   map (\<lambda>r. (PEGY r, Ticker r)) (rows (sort_values spec_sort_input)) =
     [(Some (9 / 10), ''A''), (Some (9 / 10), ''B''), (Some (15 / 10), ''Z''), (None, ''C'')]"
proof -
  have "map (\<lambda>r. (PEGY r, Ticker r)) (rows (sort_values spec_sort_input)) =
     [(Some (9 / 10), ''A''), (Some (9 / 10), ''B''), (Some (15 / 10), ''Z''), (None, ''C'')]"
    by (simp add: sort_values_def sort_by_def spec_sort_input_def blank_def)
  moreover have "mset (rows (sort_values df)) = mset (rows df)"
    by (simp add: sort_values_def)
  moreover have "columns (sort_values df) = columns df"
    by (simp add: sort_values_def)
  moreover have
     "(PEGY (rows (sort_values df) ! i) = None \<longrightarrow> PEGY (rows (sort_values df) ! j) = None) \<and>
      (\<forall>x y. PEGY (rows (sort_values df) ! i) = Some x \<and> PEGY (rows (sort_values df) ! j) = Some y \<longrightarrow>
         x < y \<or> (x = y \<and> Ticker (rows (sort_values df) ! i) \<le> Ticker (rows (sort_values df) ! j))) \<and>
      (PEGY (rows (sort_values df) ! i) = None \<and> PEGY (rows (sort_values df) ! j) = None \<longrightarrow>
         Ticker (rows (sort_values df) ! i) \<le> Ticker (rows (sort_values df) ! j))"
    if "i < j \<and> j < length (rows (sort_values df))" for i j
    using sort_values_sorted [of i j df] that
    unfolding sort_by_le by (auto split: option.splits)
  ultimately show ?thesis by blast
qed

theorem sort_values_ranks_witness:
  "mset (rows (sort_values spec_sort_input)) = mset (rows spec_sort_input) \<and>
   (2::nat) < 3 \<and> (3::nat) < length (rows (sort_values spec_sort_input)) \<and>
   PEGY (rows (sort_values spec_sort_input) ! 2) = Some (15 / 10) \<and>
   PEGY (rows (sort_values spec_sort_input) ! 3) = None \<and>
   map (\<lambda>r. (PEGY r, Ticker r)) (rows (sort_values spec_sort_input)) =
     [(Some (9 / 10), ''A''), (Some (9 / 10), ''B''), (Some (15 / 10), ''Z''), (None, ''C'')]"
proof -
  have e: "rows (sort_values spec_sort_input) =
     [(blank ''A'')\<lparr>PEGY := Some (9 / 10)\<rparr>, (blank ''B'')\<lparr>PEGY := Some (9 / 10)\<rparr>,
      (blank ''Z'')\<lparr>PEGY := Some (15 / 10)\<rparr>, blank ''C'']"
    by (simp add: sort_values_def sort_by_def spec_sort_input_def blank_def)
  have "PEGY (rows (sort_values spec_sort_input) ! 2) = Some (15 / 10)"
    and "PEGY (rows (sort_values spec_sort_input) ! 3) = None"
    and "(3::nat) < length (rows (sort_values spec_sort_input))"
    unfolding e by (simp_all add: blank_def)
  with sort_values_ranks [of spec_sort_input] show ?thesis
    by simp
qed

lemma derive_neg: "derive neg_cfg (batch_fetch demo [''KO'', ''BAD'', ''PENNY'']) = Inr neg_derived"
  unfolding fetch_demo
  by (simp add: eval_defs neg_cfg_def demo_cfg_def neg_derived_def zero_row_def demo_columns_def
        ko_row_def bad_row_def penny_row_def)


lemma derive_zero: "derive zero_cfg (batch_fetch demo [''KO'', ''BAD'', ''PENNY'']) = Inr zero_derived"
  unfolding fetch_demo
  by (simp add: eval_defs zero_cfg_def demo_cfg_def zero_derived_def zero_row_def demo_columns_def
        ko_row_def bad_row_def penny_row_def)


lemma derive_row_fields:
  "DividendPct (derive_row cfg r) = clip_lower 0 (DividendPct r)"
  "GrowthUsed (derive_row cfg r) =
     clip_lower 0 (if growth_source cfg = Analyst_5y
                   then fillna (manual_growth cfg) (AnalystGrowth r)
                   else Some (manual_growth cfg))"
  "PEUsed (derive_row cfg r) = (if pe_type cfg = Forward_PE then ForwardPE r else TrailingPE r)"
  "PEGY (derive_row cfg r) =
     pegy_value (PEUsed (derive_row cfg r)) (GrowthUsed (derive_row cfg r)) (DividendPct (derive_row cfg r))"
  by (simp_all add: derive_row_def Let_def)

lemma derive_row_frame:
  "Ticker (derive_row cfg r) = Ticker r" "Name (derive_row cfg r) = Name r"
  "Price (derive_row cfg r) = Price r" "Sector (derive_row cfg r) = Sector r"
  "TrailingPE (derive_row cfg r) = TrailingPE r" "ForwardPE (derive_row cfg r) = ForwardPE r"
  "AnalystGrowth (derive_row cfg r) = AnalystGrowth r" "Error (derive_row cfg r) = Error r"
  by (simp_all add: derive_row_def Let_def)

lemma growth_used_present:
  "GrowthUsed (derive_row cfg r) =
     Some (max 0 (if growth_source cfg = Analyst_5y
                  then (case AnalystGrowth r of None \<Rightarrow> manual_growth cfg | Some g \<Rightarrow> g)
                  else manual_growth cfg))"
  by (simp add: derive_row_fields clip_lower_def fillna_def split: option.splits)

lemma fetched_row_cases:
  assumes "r \<in> set (rows (batch_fetch yf ts))"
  obtains (failed) t e where "t \<in> set ts" and "fetch_summary yf t = Inl e"
      and "r = \<lparr> Ticker = t, Name = None, Price = None, Sector = None, TrailingPE = None,
                 ForwardPE = None, DividendPct = None, AnalystGrowth = None, Error = Some e,
                 PEUsed = None, GrowthUsed = None, PEGY = None \<rparr>"
  | (fetched) t d where "t \<in> set ts" and "fetch_summary yf t = Inr d" and "r = to_row d"
proof -
  from assms obtain t where t: "t \<in> set ts" "r = to_row (fetch_dict yf t)"
    unfolding batch_fetch_rows by auto
  show thesis
  proof (cases "fetch_summary yf t")
    case (Inl e)
    with t show thesis by (intro failed [of t e]) (simp_all add: fetch_dict_row_error)
  next
    case (Inr d)
    with t show thesis by (intro fetched [of t d]) (simp_all add: fetch_dict_row_ok)
  qed
qed

lemma fetched_dividend_absent:
  assumes "r \<in> set (rows (batch_fetch yf ts))" and "DividendPct r = None"
  shows "ForwardPE r = None \<and> TrailingPE r = None \<and> Error r \<noteq> None"
  using assms(1)
proof (cases rule: fetched_row_cases)
  case (failed t e)
  then show ?thesis by simp
next
  case (fetched t d)
  with fetch_dict_row_ok(4) [of yf t d] assms(2) show ?thesis by simp
qed

lemma pegy_value_None_iff:
  assumes "g \<noteq> None" and "d = None \<longrightarrow> pe = None"
  shows "pegy_value pe g d = None \<longleftrightarrow> pe = None \<or> add g d = Some 0"
  using assms by (auto simp: pegy_value_def add_def split: option.splits)

lemma pegy_value_Some:
  "pegy_value pe g d = Some p \<longleftrightarrow>
     (\<exists>a b c. pe = Some a \<and> g = Some b \<and> d = Some c \<and> b + c \<noteq> 0 \<and> p = a / (b + c))"
  by (auto simp: pegy_value_def split: option.splits)

text \<open>
  C4: on every row that the run block derives from a fetched table, PEGY is NaN exactly
  when PE Used is NaN or the sum of the clamped Growth % Used and Dividend % is 0, and is
  PE Used divided by that sum otherwise. The division never meets a zero divisor, and
  once the columns it reads are there the PEGY statement cannot fail.
\<close>

theorem pegy_derivation:
  "derive cfg fetched \<noteq> Inl ZeroDivisor \<and>
   (choose_pe cfg fetched = Inr with_pe \<and> choose_growth cfg with_pe = Inr with_growth \<and> clip_columns with_growth = Inr clipped
      \<longrightarrow> (\<exists>out. derive_pegy clipped = Inr out)) \<and>
   (derive cfg (batch_fetch yf tickers) = Inr df \<and> r \<in> set (rows df) \<longrightarrow>
      (PEGY r = None \<longleftrightarrow> PEUsed r = None \<or> denom r = Some 0) \<and>
      (\<forall>p. PEGY r = Some p \<longrightarrow>
         (\<exists>pe g d. PEUsed r = Some pe \<and> GrowthUsed r = Some g \<and> DividendPct r = Some d \<and>
                    g + d \<noteq> 0 \<and> p = pe / (g + d))))"
proof (intro conjI impI)
  show "derive cfg fetched \<noteq> Inl ZeroDivisor" by (rule derive_no_zero)
next
  assume s: "choose_pe cfg fetched = Inr with_pe \<and> choose_growth cfg with_pe = Inr with_growth \<and> clip_columns with_growth = Inr clipped"
  have "''PE Used'' \<in> set (columns with_pe)"
    using choose_pe_Inr(2) [of cfg fetched with_pe] s by (simp split: if_splits)
  then have "''PE Used'' \<in> set (columns with_growth)"
    using choose_growth_Inr(2) [of cfg with_pe with_growth] s by (simp split: if_splits)
  then have "''PE Used'' \<in> set (columns clipped)"
    using clip_columns_Inr(2) [of with_growth clipped] s by simp
  moreover have "''Dividend %'' \<in> set (columns clipped)" "''Growth % Used'' \<in> set (columns clipped)"
    using clip_columns_Inr(2,3,4) [of with_growth clipped] s by simp_all
  ultimately show "\<exists>out. derive_pegy clipped = Inr out"
    by (simp add: derive_pegy_def pegy_of_not_zero)
next
  assume a: "derive cfg (batch_fetch yf tickers) = Inr df \<and> r \<in> set (rows df)"
  then obtain r0 where r0: "r0 \<in> set (rows (batch_fetch yf tickers))" "r = derive_row cfg r0"
    using derive_rows [of cfg "batch_fetch yf tickers" df] by auto
  have g: "GrowthUsed r \<noteq> None"
    unfolding r0(2) growth_used_present by simp
  have d: "DividendPct r = None \<longrightarrow> PEUsed r = None"
    using fetched_dividend_absent [OF r0(1)]
    unfolding r0(2) derive_row_fields by (auto simp: clip_lower_def split: option.splits)
  have p: "PEGY r = pegy_value (PEUsed r) (GrowthUsed r) (DividendPct r)"
    unfolding r0(2) by (rule derive_row_fields(4))
  show "PEGY r = None \<longleftrightarrow> PEUsed r = None \<or> denom r = Some 0"
    unfolding p denom_def by (rule pegy_value_None_iff [OF g d])
  show "\<forall>p. PEGY r = Some p \<longrightarrow>
         (\<exists>pe g d. PEUsed r = Some pe \<and> GrowthUsed r = Some g \<and> DividendPct r = Some d \<and>
                    g + d \<noteq> 0 \<and> p = pe / (g + d))"
    unfolding p pegy_value_Some by blast
qed

theorem pegy_derivation_witness:
  "derive demo_cfg (batch_fetch demo [''KO'', ''BAD'', ''PENNY'']) = Inr demo_derived \<and>
   ko_row \<in> set (rows demo_derived) \<and>
   PEUsed ko_row = Some 20 \<and> GrowthUsed ko_row = Some 7 \<and> DividendPct ko_row = Some 3 \<and>
   PEGY ko_row = Some (20 / (7 + 3)) \<and>
   derive zero_cfg (batch_fetch demo [''KO'', ''BAD'', ''PENNY'']) = Inr zero_derived \<and>
   zero_row \<in> set (rows zero_derived) \<and>
   PEUsed zero_row = Some 9 \<and> denom zero_row = Some 0 \<and> PEGY zero_row = None"
proof -
  let ?ts = "[''KO'', ''BAD'', ''PENNY'']"
  have k: "ko_row \<in> set (rows demo_derived)"
    by (simp add: demo_derived_def)
  have z: "zero_row \<in> set (rows zero_derived)"
    by (simp add: zero_derived_def)
  have kf: "PEUsed ko_row = Some 20 \<and> GrowthUsed ko_row = Some 7 \<and> DividendPct ko_row = Some 3"
    by (simp add: ko_row_def)
  have zf: "PEUsed zero_row = Some 9 \<and> denom zero_row = Some 0"
    by (simp add: zero_row_def penny_row_def denom_def add_def)
  from pegy_derivation [where cfg = demo_cfg and yf = demo and tickers = ?ts
                          and df = demo_derived and r = ko_row] derive_demo k
  have "\<forall>p. PEGY ko_row = Some p \<longrightarrow>
         (\<exists>pe g d. PEUsed ko_row = Some pe \<and> GrowthUsed ko_row = Some g \<and> DividendPct ko_row = Some d \<and>
                    g + d \<noteq> 0 \<and> p = pe / (g + d))"
    by blast
  moreover have "PEGY ko_row \<noteq> None"
    by (simp add: ko_row_def)
  ultimately have kp: "PEGY ko_row = Some (20 / (7 + 3))"
    using kf by auto
  from pegy_derivation [where cfg = zero_cfg and yf = demo and tickers = ?ts
                          and df = zero_derived and r = zero_row] derive_zero z
  have "PEGY zero_row = None \<longleftrightarrow> PEUsed zero_row = None \<or> denom zero_row = Some 0"
    by blast
  with zf have zp: "PEGY zero_row = None"
    by simp
  from derive_demo derive_zero k z kf zf kp zp show ?thesis
    by blast
qed

lemma apply_filters_subset: "set (rows (apply_filters cfg df)) \<subseteq> set (rows df)"
  unfolding apply_filters_rows by auto

lemma screen_subset: "set (rows (sort_values (apply_filters cfg df))) \<subseteq> set (rows df)"
  using apply_filters_subset [of cfg df] by (simp add: sort_values_def)

lemma clip_lower_nonneg: "clip_lower 0 x = Some v \<Longrightarrow> 0 \<le> v"
  by (auto simp: clip_lower_def split: option.splits)

text \<open>
  C9: after the two \<open>clip\<close> statements, and in every row of the derived and of the
  filtered and ranked table, Dividend % and Growth % Used are not negative where they are
  numbers, whatever the manual growth and the provider's dividend were; and a PEGY that is
  a number is PE Used divided by the sum of these two clamped, non-negative operands.
\<close>

theorem operands_clamped:
  "(clip_columns unclipped = Inr clipped \<longrightarrow>
      (\<forall>r \<in> set (rows clipped).
         (\<forall>d. DividendPct r = Some d \<longrightarrow> 0 \<le> d) \<and> (\<forall>g. GrowthUsed r = Some g \<longrightarrow> 0 \<le> g))) \<and>
   (derive cfg fetched = Inr df \<longrightarrow>
      (\<forall>r \<in> set (rows df) \<union> set (rows (sort_values (apply_filters cfg df))).
         (\<forall>d. DividendPct r = Some d \<longrightarrow> 0 \<le> d) \<and>
         (\<forall>g. GrowthUsed r = Some g \<longrightarrow> 0 \<le> g) \<and>
         (\<forall>p. PEGY r = Some p \<longrightarrow>
            (\<exists>pe g d. PEUsed r = Some pe \<and> GrowthUsed r = Some g \<and> DividendPct r = Some d \<and>
                       0 \<le> g \<and> 0 \<le> d \<and> p = pe / (g + d)))))"
proof (intro conjI impI ballI)
  fix r
  assume c: "clip_columns unclipped = Inr clipped" and r: "r \<in> set (rows clipped)"
  from r obtain r0 where "r = r0\<lparr>DividendPct := clip_lower 0 (DividendPct r0),
                                  GrowthUsed := clip_lower 0 (GrowthUsed r0)\<rparr>"
    unfolding clip_columns_Inr(1) [OF c] by auto
  then show "\<forall>d. DividendPct r = Some d \<longrightarrow> 0 \<le> d" and "\<forall>g. GrowthUsed r = Some g \<longrightarrow> 0 \<le> g"
    by (auto dest: clip_lower_nonneg)
next
  fix r
  assume d: "derive cfg fetched = Inr df"
    and "r \<in> set (rows df) \<union> set (rows (sort_values (apply_filters cfg df)))"
  then have "r \<in> set (rows df)"
    using screen_subset [of cfg df] by auto
  then obtain r0 where r0: "r = derive_row cfg r0"
    unfolding derive_rows [OF d] by auto
  show dv: "\<forall>d. DividendPct r = Some d \<longrightarrow> 0 \<le> d"
    unfolding r0 derive_row_fields by (auto dest: clip_lower_nonneg)
  show gr: "\<forall>g. GrowthUsed r = Some g \<longrightarrow> 0 \<le> g"
    unfolding r0 derive_row_fields(2) by (auto dest: clip_lower_nonneg)
  have p: "PEGY r = pegy_value (PEUsed r) (GrowthUsed r) (DividendPct r)"
    unfolding r0 by (rule derive_row_fields(4))
  show "\<forall>p. PEGY r = Some p \<longrightarrow>
            (\<exists>pe g d. PEUsed r = Some pe \<and> GrowthUsed r = Some g \<and> DividendPct r = Some d \<and>
                       0 \<le> g \<and> 0 \<le> d \<and> p = pe / (g + d))"
    using dv gr unfolding p pegy_value_Some by blast
qed

theorem operands_clamped_witness:
  "manual_growth neg_cfg = - 2 \<and>
   map DividendPct (rows (batch_fetch demo [''KO'', ''BAD'', ''PENNY''])) = [Some 3, None, Some (- 1)] \<and>
   derive neg_cfg (batch_fetch demo [''KO'', ''BAD'', ''PENNY'']) = Inr neg_derived \<and>
   map DividendPct (rows neg_derived) = [Some 3, None, Some 0] \<and>
   map GrowthUsed (rows neg_derived) = [Some 0, Some 0, Some 0] \<and>
   map PEGY (rows neg_derived) = [Some (20 / 3), None, None] \<and>
   (\<exists>pe g d. PEUsed (rows neg_derived ! 0) = Some pe \<and> GrowthUsed (rows neg_derived ! 0) = Some g \<and>
              DividendPct (rows neg_derived ! 0) = Some d \<and> 0 \<le> g \<and> 0 \<le> d \<and> 20 / 3 = pe / (g + d))"
proof -
  have m: "manual_growth neg_cfg = - 2"
    by (simp add: neg_cfg_def)
  have f: "map DividendPct (rows (batch_fetch demo [''KO'', ''BAD'', ''PENNY''])) = [Some 3, None, Some (- 1)]"
    unfolding fetch_demo by (simp add: ko_row_def bad_row_def penny_row_def)
  have v: "map DividendPct (rows neg_derived) = [Some 3, None, Some 0]"
      "map GrowthUsed (rows neg_derived) = [Some 0, Some 0, Some 0]"
      "map PEGY (rows neg_derived) = [Some (20 / 3), None, None]"
    by (simp_all add: neg_derived_def zero_row_def ko_row_def bad_row_def penny_row_def)
  have r: "rows neg_derived ! 0 \<in> set (rows neg_derived) \<union> set (rows (sort_values (apply_filters neg_cfg neg_derived)))"
    by (simp add: neg_derived_def)
  have p: "PEGY (rows neg_derived ! 0) = Some (20 / 3)"
    by (simp add: neg_derived_def)
  from operands_clamped [where cfg = neg_cfg and fetched = "batch_fetch demo [''KO'', ''BAD'', ''PENNY'']"
                           and df = neg_derived] derive_neg
  have "\<forall>r \<in> set (rows neg_derived) \<union> set (rows (sort_values (apply_filters neg_cfg neg_derived))).
         \<forall>p. PEGY r = Some p \<longrightarrow>
            (\<exists>pe g d. PEUsed r = Some pe \<and> GrowthUsed r = Some g \<and> DividendPct r = Some d \<and>
                       0 \<le> g \<and> 0 \<le> d \<and> p = pe / (g + d))"
    by blast
  with r p have "\<exists>pe g d. PEUsed (rows neg_derived ! 0) = Some pe \<and> GrowthUsed (rows neg_derived ! 0) = Some g \<and>
              DividendPct (rows neg_derived ! 0) = Some d \<and> 0 \<le> g \<and> 0 \<le> d \<and> 20 / 3 = pe / (g + d)"
    by blast
  with m f v derive_neg show ?thesis
    by blast
qed

lemma derive_capped: "derive capped_cfg (batch_fetch demo [''KO'', ''BAD'', ''PENNY'']) = Inr demo_derived"
  unfolding fetch_demo
  by (simp add: eval_defs capped_cfg_def demo_cfg_def demo_derived_def demo_columns_def
        ko_row_def bad_row_def penny_row_def)

lemma ranked_demo: "rows (sort_values (apply_filters demo_cfg demo_derived)) = [penny_row, ko_row, bad_row]"
  by (simp add: apply_filters_def sort_values_def sort_by_def demo_cfg_def demo_derived_def
        ko_row_def bad_row_def penny_row_def)

lemma ranked_capped: "rows (sort_values (apply_filters capped_cfg demo_derived)) = [penny_row]"
  by (simp add: apply_filters_def sort_values_def sort_by_def le_def capped_cfg_def demo_cfg_def
        demo_derived_def ko_row_def bad_row_def penny_row_def)

text \<open>
  When every ticker of the batch fails, the frame has the columns Ticker and Error only,
  and the first statement of the run block, which reads the P/E column, raises KeyError.
\<close>

lemma all_failed_batch_raises: "derive demo_cfg (batch_fetch demo [''BAD'']) = Inl (KeyError [''Forward PE''])"
  by (simp add: eval_defs demo_def demo_cfg_def)

text \<open>
  C2, as stated: a row with an Error marker has no numeric field, in particular no numeric
  Growth % Used. It has one: \<open>fillna(manual_growth)\<close>, or the assignment of the manual
  growth to the whole column, gives the row the manual growth. In the batch KO, BAD,
  PENNY the provider raises for BAD, and the derived row of BAD has Growth % Used 10.
\<close>

theorem error_row_gets_manual_growth:
  "fetch_summary demo ''BAD'' = Inl ''boom'' \<and>
   derive demo_cfg (batch_fetch demo [''KO'', ''BAD'', ''PENNY'']) = Inr demo_derived \<and>
   rows demo_derived ! 1 = bad_row \<and>
   Error bad_row = Some ''boom'' \<and>
   GrowthUsed bad_row = Some 10"
  using derive_demo by (simp add: demo_derived_def bad_row_def fetch_summary_def demo_def)

text \<open>
  C2, amended: whenever the run block gets past the derivation (at least one ticker of the
  batch was fetched), a row with an Error marker has NaN in every fetched field and in
  PE Used and PEGY, while its Growth % Used is the manual growth floored at 0; it is
  removed by any active filter (positive \<open>min_div_yield\<close> or positive \<open>max_pegy\<close>),
  is kept when neither is active, and then stands after every row that has a PEGY.
\<close>

theorem error_row_through_pipeline:
  assumes "derive cfg (batch_fetch yf tickers) = Inr df" and "r \<in> set (rows df)" and "Error r \<noteq> None"
  shows "Name r = None \<and> Price r = None \<and> Sector r = None \<and> TrailingPE r = None \<and>
         ForwardPE r = None \<and> DividendPct r = None \<and> AnalystGrowth r = None \<and>
         PEUsed r = None \<and> PEGY r = None \<and>
         GrowthUsed r = Some (max 0 (manual_growth cfg)) \<and>
         (0 < min_div_yield cfg \<or> 0 < max_pegy cfg \<longrightarrow>
            r \<notin> set (rows (sort_values (apply_filters cfg df)))) \<and>
         (min_div_yield cfg \<le> 0 \<and> max_pegy cfg \<le> 0 \<longrightarrow>
            r \<in> set (rows (sort_values (apply_filters cfg df)))) \<and>
         (\<forall>i j. i < length (rows (sort_values (apply_filters cfg df))) \<and>
                j < length (rows (sort_values (apply_filters cfg df))) \<and>
                rows (sort_values (apply_filters cfg df)) ! i = r \<and>
                PEGY (rows (sort_values (apply_filters cfg df)) ! j) \<noteq> None \<longrightarrow> j < i)"
proof -
  let ?out = "rows (sort_values (apply_filters cfg df))"
  from assms(1,2) obtain r0 where r0: "r0 \<in> set (rows (batch_fetch yf tickers))" "r = derive_row cfg r0"
    using derive_rows [of cfg "batch_fetch yf tickers" df] by auto
  from assms(3) have e: "Error r0 \<noteq> None"
    unfolding r0(2) derive_row_frame .
  from r0(1) obtain t e where
    f: "r0 = \<lparr> Ticker = t, Name = None, Price = None, Sector = None, TrailingPE = None,
                 ForwardPE = None, DividendPct = None, AnalystGrowth = None, Error = Some e,
                 PEUsed = None, GrowthUsed = None, PEGY = None \<rparr>"
  proof (cases rule: fetched_row_cases)
    case (failed t e)
    then show ?thesis using that by blast
  next
    case (fetched t d)
    with fetch_dict_row_ok(3) [of yf t d] e show ?thesis by simp
  qed
  have fields: "Name r = None \<and> Price r = None \<and> Sector r = None \<and> TrailingPE r = None \<and>
         ForwardPE r = None \<and> DividendPct r = None \<and> AnalystGrowth r = None \<and> PEUsed r = None"
    unfolding r0(2) derive_row_frame derive_row_fields by (simp add: f clip_lower_def)
  have growth: "GrowthUsed r = Some (max 0 (manual_growth cfg))"
    unfolding r0(2) growth_used_present by (simp add: f)
  have pegy: "PEGY r = None"
    unfolding r0(2) derive_row_fields(4) by (simp add: pegy_value_def derive_row_fields f)
  have out: "set ?out = {x \<in> set (rows df).
                (0 < min_div_yield cfg \<longrightarrow> ge (DividendPct x) (min_div_yield cfg)) \<and>
                (0 < max_pegy cfg \<longrightarrow> le (PEGY x) (max_pegy cfg))}"
    by (simp add: sort_values_def apply_filters_rows)
  have excl: "0 < min_div_yield cfg \<or> 0 < max_pegy cfg \<longrightarrow> r \<notin> set ?out"
    unfolding out using fields pegy by (auto simp: ge_def le_def)
  have incl: "min_div_yield cfg \<le> 0 \<and> max_pegy cfg \<le> 0 \<longrightarrow> r \<in> set ?out"
    unfolding out using assms(2) by auto
  have last: "j < i" if h: "i < length ?out \<and> j < length ?out \<and> ?out ! i = r \<and> PEGY (?out ! j) \<noteq> None" for i j
  proof (rule ccontr)
    assume "\<not> j < i"
    then consider "i = j" | "i < j" by linarith
    then show False
    proof cases
      case 1
      with h pegy show False by auto
    next
      case 2
      with h have "sort_by (?out ! i) \<le> sort_by (?out ! j)"
        by (intro sort_values_sorted) simp_all
      with h pegy show False
        unfolding sort_by_le by (auto split: option.splits)
    qed
  qed
  from fields growth pegy excl incl last show ?thesis by blast
qed

theorem error_row_through_pipeline_witness:
  "derive demo_cfg (batch_fetch demo [''KO'', ''BAD'', ''PENNY'']) = Inr demo_derived \<and>
   bad_row \<in> set (rows demo_derived) \<and> Error bad_row = Some ''boom'' \<and>
   PEGY bad_row = None \<and> DividendPct bad_row = None \<and>
   GrowthUsed bad_row = Some (max 0 (manual_growth demo_cfg)) \<and>
   rows (sort_values (apply_filters demo_cfg demo_derived)) = [penny_row, ko_row, bad_row] \<and>
   derive capped_cfg (batch_fetch demo [''KO'', ''BAD'', ''PENNY'']) = Inr demo_derived \<and>
   (0::real) < max_pegy capped_cfg \<and>
   bad_row \<notin> set (rows (sort_values (apply_filters capped_cfg demo_derived)))"
proof -
  let ?ts = "[''KO'', ''BAD'', ''PENNY'']"
  have m: "bad_row \<in> set (rows demo_derived)"
    by (simp add: demo_derived_def)
  have e: "Error bad_row \<noteq> None" "Error bad_row = Some ''boom''"
    by (simp_all add: bad_row_def)
  have c: "0 < max_pegy capped_cfg"
    by (simp add: capped_cfg_def)
  note a = error_row_through_pipeline [OF derive_demo m e(1)]
  note b = error_row_through_pipeline [OF derive_capped m e(1)]
  from a have "PEGY bad_row = None" and "DividendPct bad_row = None"
    and "GrowthUsed bad_row = Some (max 0 (manual_growth demo_cfg))"
    by blast+
  moreover from b c have "bad_row \<notin> set (rows (sort_values (apply_filters capped_cfg demo_derived)))"
    by blast
  ultimately show ?thesis
    using derive_demo derive_capped m e(2) c ranked_demo by blast
qed

lemma round2_demo: "round2 5 = 5" "round2 9 = 9" "round2 10 = 10" "round2 0 = 0" "round2 (9 / 10) = 9 / 10"
  "round2 (481 / 8) = 6012 / 100" "round2 20 = 20" "round2 7 = 7" "round2 3 = 3" "round2 2 = 2"
  by (simp_all add: round2_def rint_def Let_def)

lemma display_demo:
  "display \<lparr> columns = demo_columns, rows = [penny_row, ko_row, bad_row] \<rparr> = Inr (shown demo_out)"
  by (simp add: display_def display_columns_def demo_columns_def demo_out_def cell_at_def
        round_cell_def rounded_columns_def round2_demo num_def str_def
        ko_row_def bad_row_def penny_row_def)

lemma to_csv_demo:
  "to_csv \<lparr> columns = demo_columns, rows = [penny_row, ko_row, bad_row] \<rparr> = csv demo_out"
  by (simp add: to_csv_def demo_columns_def demo_out_def cell_at_def num_def str_def
        ko_row_def bad_row_def penny_row_def)

lemma run_demo: "run demo demo_cfg = Inr demo_out"
proof -
  have f: "sort_values (apply_filters demo_cfg demo_derived) =
             \<lparr> columns = demo_columns, rows = [penny_row, ko_row, bad_row] \<rparr>"
    using ranked_demo
    by (simp add: sort_values_def apply_filters_def demo_cfg_def demo_derived_def)
  show ?thesis
    unfolding run_def parse_demo Let_def
    by (simp add: derive_demo f display_demo to_csv_demo) (simp add: demo_out_def)
qed

lemma run_Inr:
  assumes "run yf cfg = Inr out"
  shows "parse_tickers (tickers_text cfg) \<noteq> []"
    and "derive cfg (batch_fetch yf (parse_tickers (tickers_text cfg))) = Inr (derived out)"
    and "filtered out = sort_values (apply_filters cfg (derived out))"
    and "display (filtered out) = Inr (shown out)"
    and "csv out = to_csv (filtered out)"
  using assms
  by (auto simp: run_def Let_def split: if_splits sum.splits)

lemma screen_columns: "columns (sort_values (apply_filters cfg df)) = columns df"
  by (simp add: sort_values_def apply_filters_columns)

lemma batch_fetch_first_column:
  assumes "ts \<noteq> []"
  shows "hd (columns (batch_fetch yf ts)) = ''Ticker''"
proof -
  from assms obtain t rest where ts: "ts = t # rest" by (cases ts) auto
  have "hd (map fst (fetch_dict yf t)) = ''Ticker''"
    unfolding fetch_dict_keys by (simp add: summary_keys_def split: sum.splits)
  moreover have "map fst (fetch_dict yf t) \<noteq> []"
    unfolding fetch_dict_keys by (simp add: summary_keys_def split: sum.splits)
  ultimately show ?thesis
    unfolding ts batch_fetch_def DataFrame_def batch_rows_map
    by (cases "map fst (fetch_dict yf t)") simp_all
qed

lemma batch_fetch_columns_nonempty:
  assumes "ts \<noteq> []"
  shows "columns (batch_fetch yf ts) \<noteq> []"
proof -
  from assms obtain t where "t \<in> set ts" by (cases ts) auto
  then have "''Ticker'' \<in> set (columns (batch_fetch yf ts))"
    unfolding batch_fetch_columns_set by (auto simp: summary_keys_def split: sum.splits)
  then show ?thesis by auto
qed

text \<open>
  C3, as stated: the CSV has the column order of the presentation table. It has not:
  \<open>to_csv\<close> is called on the whole filtered frame, not on the eight columns selected
  for \<open>st.dataframe\<close>. For the batch KO, BAD, PENNY the header of the CSV has twelve
  columns, Price before Sector, and is not the header of the table shown.
\<close>

theorem csv_header_is_not_presentation:
  "run demo demo_cfg = Inr demo_out \<and>
   fst (shown demo_out) =
     [''Ticker'', ''Name'', ''Sector'', ''Price'', ''PE Used'', ''Growth % Used'', ''Dividend %'', ''PEGY''] \<and>
   fst (csv demo_out) =
     [''Ticker'', ''Name'', ''Price'', ''Sector'', ''Trailing PE'', ''Forward PE'', ''Dividend %'',
      ''Analyst 5y Growth %'', ''Error'', ''PE Used'', ''Growth % Used'', ''PEGY''] \<and>
   fst (csv demo_out) \<noteq> fst (shown demo_out)"
  using run_demo by (simp add: demo_out_def demo_columns_def display_columns_def)

text \<open>
  C3, amended: the CSV export serializes exactly the ranked and filtered frame, with a
  header row, one row per surviving ticker in ranked order, and no index column (the
  first column is Ticker). Its columns are all the columns of the frame in the frame's
  order: the fetched columns in order of first appearance, then PE Used, Growth % Used
  and PEGY. The eight presentation columns are among them.
\<close>

theorem csv_export:
  assumes "run yf cfg = Inr out"
  shows "filtered out = sort_values (apply_filters cfg (derived out)) \<and>
         csv out = to_csv (filtered out) \<and>
         fst (csv out) =
           columns (batch_fetch yf (parse_tickers (tickers_text cfg))) @
             [''PE Used'', ''Growth % Used'', ''PEGY''] \<and>
         hd (fst (csv out)) = ''Ticker'' \<and>
         set display_columns \<subseteq> set (fst (csv out)) \<and>
         length (snd (csv out)) = length (rows (filtered out)) \<and>
         (\<forall>i < length (rows (filtered out)).
            snd (csv out) ! i = map (\<lambda>c. cell_at c (rows (filtered out) ! i)) (fst (csv out)))"
proof -
  let ?ts = "parse_tickers (tickers_text cfg)"
  note r = run_Inr [OF assms]
  have cols: "columns (derived out) = columns (batch_fetch yf ?ts) @ [''PE Used'', ''Growth % Used'', ''PEGY'']"
    by (rule derive_columns [OF r(2) batch_fetch_no_derived_columns])
  have fcols: "columns (filtered out) = columns (derived out)"
    unfolding r(3) by (rule screen_columns)
  have header: "fst (csv out) = columns (batch_fetch yf ?ts) @ [''PE Used'', ''Growth % Used'', ''PEGY'']"
    unfolding r(5) by (simp add: to_csv_def fcols cols)
  have first: "hd (fst (csv out)) = ''Ticker''"
    unfolding header
    using batch_fetch_first_column [OF r(1), of yf] batch_fetch_columns_nonempty [OF r(1), of yf]
    by simp
  have shown: "set display_columns \<subseteq> set (fst (csv out))"
    using r(4) unfolding r(5)
    by (auto simp: display_def to_csv_def split: if_splits)
  have len: "length (snd (csv out)) = length (rows (filtered out))"
    unfolding r(5) by (simp add: to_csv_def)
  have cells: "\<forall>i < length (rows (filtered out)).
            snd (csv out) ! i = map (\<lambda>c. cell_at c (rows (filtered out) ! i)) (fst (csv out))"
    unfolding r(5) by (simp add: to_csv_def)
  from r(3) r(5) header first shown len cells show ?thesis by blast
qed

theorem csv_export_witness:
  "run demo demo_cfg = Inr demo_out \<and>
   fst (csv demo_out) =
     columns (batch_fetch demo (parse_tickers (tickers_text demo_cfg))) @
       [''PE Used'', ''Growth % Used'', ''PEGY''] \<and>
   hd (fst (csv demo_out)) = ''Ticker'' \<and>
   length (snd (csv demo_out)) = 3 \<and>
   map Ticker (rows (filtered demo_out)) = [''PENNY'', ''KO'', ''BAD''] \<and>
   map hd (snd (csv demo_out)) = [Str ''PENNY'', Str ''KO'', Str ''BAD'']"
proof -
  from csv_export [OF run_demo]
  have "fst (csv demo_out) =
     columns (batch_fetch demo (parse_tickers (tickers_text demo_cfg))) @
       [''PE Used'', ''Growth % Used'', ''PEGY'']"
    and "hd (fst (csv demo_out)) = ''Ticker''"
    and "length (snd (csv demo_out)) = length (rows (filtered demo_out))"
    by blast+
  moreover have "length (rows (filtered demo_out)) = 3"
    and "map Ticker (rows (filtered demo_out)) = [''PENNY'', ''KO'', ''BAD'']"
    and "map hd (snd (csv demo_out)) = [Str ''PENNY'', Str ''KO'', Str ''BAD'']"
    by (simp_all add: demo_out_def ko_row_def bad_row_def penny_row_def)
  ultimately show ?thesis
    using run_demo by simp
qed

text \<open>
  C10, as stated: every row of the table presented has the field values of its derived
  row. It has not where a value has more than two decimals: the table handed to
  \<open>st.dataframe\<close> is rounded. KO is fetched with the price 60.125 and shown with 60.12.
\<close>

theorem presented_price_is_rounded:
  "run demo demo_cfg = Inr demo_out \<and>
   rows (filtered demo_out) ! 1 = ko_row \<and>
   rows (derived demo_out) ! 0 = ko_row \<and>
   Price ko_row = Some (481 / 8) \<and>
   fst (shown demo_out) ! 3 = ''Price'' \<and>
   snd (shown demo_out) ! 1 ! 3 = Num (6012 / 100)"
  using run_demo by (simp add: demo_out_def demo_derived_def display_columns_def ko_row_def)

text \<open>
  C10, amended: filtering and ranking only select and reorder rows. Every row of the
  filtered and ranked frame is a row of the derived table with all its field values, the
  columns are the same, and the exported CSV holds these values as they are. The table
  presented holds the same rows in the same order with Price, PE Used, Growth % Used,
  Dividend % and PEGY rounded to two decimals.
\<close>

theorem filter_and_rank_keep_rows:
  assumes "run yf cfg = Inr out"
  shows "mset (rows (filtered out)) \<subseteq># mset (rows (derived out)) \<and>
         columns (filtered out) = columns (derived out) \<and>
         snd (csv out) = map (\<lambda>r. map (\<lambda>c. cell_at c r) (columns (derived out))) (rows (filtered out)) \<and>
         fst (shown out) = display_columns \<and>
         snd (shown out) =
           map (\<lambda>r. map (\<lambda>c. round_cell c (cell_at c r)) display_columns) (rows (filtered out))"
proof -
  note r = run_Inr [OF assms]
  have "mset (rows (filtered out)) = filter_mset
           (\<lambda>r. (0 < min_div_yield cfg \<longrightarrow> ge (DividendPct r) (min_div_yield cfg)) \<and>
                 (0 < max_pegy cfg \<longrightarrow> le (PEGY r) (max_pegy cfg))) (mset (rows (derived out)))"
    unfolding r(3) by (simp add: sort_values_def apply_filters_rows)
  then have sub: "mset (rows (filtered out)) \<subseteq># mset (rows (derived out))"
    by simp
  have cols: "columns (filtered out) = columns (derived out)"
    unfolding r(3) by (rule screen_columns)
  have c: "snd (csv out) = map (\<lambda>r. map (\<lambda>c. cell_at c r) (columns (derived out))) (rows (filtered out))"
    unfolding r(5) by (simp add: to_csv_def cols)
  have s: "shown out = (display_columns,
             map (\<lambda>r. map (\<lambda>c. round_cell c (cell_at c r)) display_columns) (rows (filtered out)))"
    using r(4) by (simp add: display_def split: if_splits)
  from sub cols c s show ?thesis by simp
qed

theorem filter_and_rank_keep_rows_witness:
  "run demo capped_cfg = Inr (demo_out\<lparr> filtered := \<lparr> columns = demo_columns, rows = [penny_row] \<rparr>,
                                         shown := (display_columns, [hd (snd (shown demo_out))]),
                                         csv := (demo_columns, [hd (snd (csv demo_out))]) \<rparr>) \<and>
   mset [penny_row] \<subseteq># mset [ko_row, bad_row, penny_row] \<and>
   snd (shown demo_out) =
     map (\<lambda>r. map (\<lambda>c. round_cell c (cell_at c r)) display_columns) [penny_row, ko_row, bad_row]"
proof -
  let ?out = "demo_out\<lparr> filtered := \<lparr> columns = demo_columns, rows = [penny_row] \<rparr>,
                        shown := (display_columns, [hd (snd (shown demo_out))]),
                        csv := (demo_columns, [hd (snd (csv demo_out))]) \<rparr>"
  have p: "parse_tickers (tickers_text capped_cfg) = [''KO'', ''BAD'', ''PENNY'']"
    using parse_demo by (simp add: capped_cfg_def)
  have f: "sort_values (apply_filters capped_cfg demo_derived) =
             \<lparr> columns = demo_columns, rows = [penny_row] \<rparr>"
    using ranked_capped
    by (simp add: sort_values_def apply_filters_def capped_cfg_def demo_cfg_def demo_derived_def)
  have d: "display \<lparr> columns = demo_columns, rows = [penny_row] \<rparr> =
             Inr (display_columns, [hd (snd (shown demo_out))])"
    by (simp add: display_def display_columns_def demo_columns_def demo_out_def cell_at_def
        round_cell_def rounded_columns_def round2_demo num_def str_def penny_row_def)
  have c: "to_csv \<lparr> columns = demo_columns, rows = [penny_row] \<rparr> =
             (demo_columns, [hd (snd (csv demo_out))])"
    by (simp add: to_csv_def demo_columns_def demo_out_def cell_at_def num_def str_def penny_row_def)
  have run: "run demo capped_cfg = Inr ?out"
    unfolding run_def p Let_def
    by (simp add: derive_capped f d c) (simp add: demo_out_def)
  from filter_and_rank_keep_rows [OF run]
  have "mset (rows (filtered ?out)) \<subseteq># mset (rows (derived ?out))"
    by blast
  then have a: "mset [penny_row] \<subseteq># mset [ko_row, bad_row, penny_row]"
    by (simp add: demo_out_def demo_derived_def)
  from filter_and_rank_keep_rows [OF run_demo]
  have "snd (shown demo_out) =
           map (\<lambda>r. map (\<lambda>c. round_cell c (cell_at c r)) display_columns) (rows (filtered demo_out))"
    by blast
  then have b: "snd (shown demo_out) =
     map (\<lambda>r. map (\<lambda>c. round_cell c (cell_at c r)) display_columns) [penny_row, ko_row, bad_row]"
    by (simp add: demo_out_def)
  from run a b show ?thesis by blast
qed

end
